theory Spec2Isabelle
  imports Main "HOL-Library.Char_ord" "HOL-Library.List_Lexorder"
begin

section \<open>Typed-data hashing (src/utils/typedData.ts)\<close>

text \<open>
  A shallow embedding of the typed-data module.  JavaScript values are a datatype,
  thrown exceptions are the left summand of a sum type, and recursion that the source
  does not bound (the dependency walk over the type graph, the value encoder) carries
  a fuel argument: the result \<open>None\<close> means that the call did not return within the fuel.

  Conventions of the embedding:
  \<^item> strings are lists of 8-bit characters, read as the code units of the source string;
  \<^item> an object is the list of its own enumerable properties in the order of
    \<open>Object.entries\<close>, and its prototype is \<open>Object.prototype\<close>: under a key that it
    does not own it yields the member of that name (\<open>JNative\<close>) when \<open>Object.prototype\<close>
    has one; the same holds of the map of the declared types;
  \<^item> what a value other than a plain object inherits (the members of the built-in
    prototypes of arrays, strings, numbers and functions) belongs to the run time and
    is a parameter;
  \<^item> a number is an integer (\<open>JNum\<close>), a bigint is \<open>JBig\<close>; fractional numbers and
    \<open>NaN\<close> are not part of the model;
  \<^item> the imported helpers (hash functions, Merkle tree, hex conversion, short
    strings, byte arrays) and the imported constants are parameters, collected in the
    record \<open>collaborators\<close>; a helper that throws returns \<open>None\<close>.
\<close>

subsection \<open>JavaScript values and exceptions\<close>

datatype jsval =
    JUndefined
  | JNull
  | JBool bool
  | JNum int
  | JBig int
  | JStr string
  | JArr "jsval list"
  | JObj "(string \<times> jsval) list"
  | JNative string

datatype error =
    SchemaMismatch
  | MissingField string
  | RangeViolation string
  | TypeMismatch string
  | UnsupportedType string
  | NotMerkleTree string
  | MerkleContainsArray string
  | ConversionError
  | TypeError
  | SyntaxError
  | ExternalFailure

type_synonym 'a res = "error + 'a"

type_synonym 'a result = "(error + 'a) option"

definition bindE :: "'a res \<Rightarrow> ('a \<Rightarrow> 'b res) \<Rightarrow> 'b res" where
  "bindE m f = (case m of Inl e \<Rightarrow> Inl e | Inr v \<Rightarrow> f v)"

definition ext :: "'a option \<Rightarrow> 'a res" where
  "ext m = (case m of None \<Rightarrow> Inl ExternalFailure | Some v \<Rightarrow> Inr v)"

fun mapME :: "('a \<Rightarrow> 'b res) \<Rightarrow> 'a list \<Rightarrow> 'b list res" where
  "mapME f [] = Inr []"
| "mapME f (x # xs) = bindE (f x) (\<lambda>y. bindE (mapME f xs) (\<lambda>ys. Inr (y # ys)))"

definition returnR :: "'a \<Rightarrow> 'a result" where
  "returnR v = Some (Inr v)"

definition throwR :: "error \<Rightarrow> 'a result" where
  "throwR e = Some (Inl e)"

definition liftR :: "'a res \<Rightarrow> 'a result" where
  "liftR m = Some m"

definition bindR :: "'a result \<Rightarrow> ('a \<Rightarrow> 'b result) \<Rightarrow> 'b result" where
  "bindR m f = (case m of None \<Rightarrow> None | Some (Inl e) \<Rightarrow> Some (Inl e) | Some (Inr v) \<Rightarrow> f v)"

text \<open>Truthiness (\<open>ToBoolean\<close>) and strict equality (\<open>===\<close>) against a primitive.\<close>

fun truthy :: "jsval \<Rightarrow> bool" where
  "truthy JUndefined = False"
| "truthy JNull = False"
| "truthy (JBool b) = b"
| "truthy (JNum i) = (i \<noteq> 0)"
| "truthy (JBig i) = (i \<noteq> 0)"
| "truthy (JStr s) = (s \<noteq> [])"
| "truthy (JArr xs) = True"
| "truthy (JObj kvs) = True"
| "truthy (JNative k) = True"

fun strictEq :: "jsval \<Rightarrow> jsval \<Rightarrow> bool" where
  "strictEq (JArr xs) b = False"
| "strictEq (JObj kvs) b = False"
| "strictEq (JNative k) b = False"
| "strictEq a b = (a = b)"

text \<open>Decimal rendering of an array index, as used for the property key of an index.\<close>

fun decNat :: "nat \<Rightarrow> string" where
  "decNat n =
     (if n < 10 then [''0123456789'' ! n]
      else decNat (n div 10) @ [''0123456789'' ! (n mod 10)])"

declare decNat.simps [simp del]

text \<open>
  The names of the members of \<open>Object.prototype\<close>, which every plain object inherits.
  The value \<open>JNative k\<close> is the member of the name \<open>k\<close>: a built-in function, or the
  prototype itself for \<open>__proto__\<close>.  It is not an array, not a string and not a
  boolean, it has no own enumerable property, and it has no method \<open>map\<close>, \<open>find\<close> or
  \<open>reduce\<close>.
\<close>

definition objectPrototypeNames :: "string list" where
  "objectPrototypeNames =
     [''constructor'', ''__defineGetter__'', ''__defineSetter__'', ''hasOwnProperty'',
      ''__lookupGetter__'', ''__lookupSetter__'', ''isPrototypeOf'',
      ''propertyIsEnumerable'', ''toString'', ''valueOf'', ''__proto__'',
      ''toLocaleString'']"

text \<open>\<open>Object.entries(v)\<close>: throws on \<open>null\<close> and \<open>undefined\<close>.\<close>

fun objectEntries :: "jsval \<Rightarrow> (string \<times> jsval) list res" where
  "objectEntries JUndefined = Inl TypeError"
| "objectEntries JNull = Inl TypeError"
| "objectEntries (JObj kvs) = Inr kvs"
| "objectEntries (JArr xs) = Inr (map (\<lambda>i. (decNat i, xs ! i)) [0..<length xs])"
| "objectEntries (JStr s) = Inr (map (\<lambda>i. (decNat i, JStr [s ! i])) [0..<length s])"
| "objectEntries (JBool b) = Inr []"
| "objectEntries (JNum i) = Inr []"
| "objectEntries (JBig i) = Inr []"
| "objectEntries (JNative k) = Inr []"

subsection \<open>String operations of the source\<close>

text \<open>\<open>s[s.length - 1] === '*'\<close> and \<open>s.endsWith('*')\<close>.\<close>

definition endsWithStar :: "string \<Rightarrow> bool" where
  "endsWithStar s = (s \<noteq> [] \<and> last s = CHR ''*'')"

text \<open>
  The regular expression \<open>/^\(.*\)$/\<close>: an opening parenthesis first, a closing
  parenthesis last, and no line terminator between them (the dot matches none).
\<close>

definition isLineTerminator :: "char \<Rightarrow> bool" where
  "isLineTerminator c = (c = CHR 0x0A \<or> c = CHR 0x0D)"

definition matchesParens :: "string \<Rightarrow> bool" where
  "matchesParens s =
     (2 \<le> length s \<and> hd s = CHR ''('' \<and> last s = CHR '')'' \<and>
      list_all (\<lambda>c. \<not> isLineTerminator c) (butlast (tl s)))"

text \<open>\<open>s.slice(0, -1)\<close> is \<open>butlast s\<close>; \<open>s.slice(1, -1)\<close> is the following.\<close>

definition slice_1_m1 :: "string \<Rightarrow> string" where
  "slice_1_m1 s = butlast (tl s)"

text \<open>\<open>s.split(',')\<close> and \<open>xs.join(sep)\<close>.\<close>

fun splitComma :: "string \<Rightarrow> string list" where
  "splitComma [] = [[]]"
| "splitComma (c # cs) =
     (if c = CHR '','' then [] # splitComma cs
      else (case splitComma cs of [] \<Rightarrow> [[c]] | x # xs \<Rightarrow> (c # x) # xs))"

fun join :: "string \<Rightarrow> string list \<Rightarrow> string" where
  "join sep [] = []"
| "join sep [x] = x"
| "join sep (x # y # ys) = x @ sep @ join sep (y # ys)"

subsection \<open>Types of the module\<close>

record StarknetType =
  t_name :: string
  t_type :: string
  t_contains :: "string option"

type_synonym types = "string \<rightharpoonup> StarknetType list"

text \<open>
  What \<open>types[name]\<close> yields: the declared fields when the map owns the name, an
  inherited member of \<open>Object.prototype\<close> (a truthy value that is not an array) when it
  does not own the name and the prototype has it, and \<open>undefined\<close> otherwise.
\<close>

datatype lookup = Declared "StarknetType list" | Inherited | Undeclared

definition lookupType :: "types \<Rightarrow> string \<Rightarrow> lookup" where
  "lookupType types name =
     (case types name of
        Some fs \<Rightarrow> Declared fs
      | None \<Rightarrow> if name \<in> set objectPrototypeNames then Inherited else Undeclared)"

datatype Revision = ACTIVE | LEGACY

record Context =
  parent :: "string option"
  key :: "string option"

record ByteArray =
  ba_data :: "jsval list"
  pending_word :: jsval
  pending_word_len :: jsval

record TypedData =
  td_types :: "types option"
  td_primaryType :: string
  td_domain :: jsval
  td_message :: jsval

text \<open>
  The imports of the module.  \<open>revisionValue\<close> gives the run-time values of the
  members of the \<open>TypedDataRevision\<close> enumeration, \<open>PRIME\<close> the field modulus,
  \<open>parseBigInt\<close> the conversion \<open>BigInt(v)\<close> of a string or an object,
  \<open>merkleRoot leaves h\<close> the root of \<open>new MerkleTree(leaves, h)\<close>, and
  \<open>runtimeMember v k\<close> what the run time yields for \<open>v[k]\<close> when \<open>v\<close> is not a plain
  object and does not own \<open>k\<close> (\<open>None\<close> when the read throws).
\<close>

record collaborators =
  computePoseidonHashOnElements :: "jsval list \<Rightarrow> string option"
  computePedersenHashOnElements :: "jsval list \<Rightarrow> string option"
  computePoseidonHash :: "jsval \<Rightarrow> jsval \<Rightarrow> string option"
  computePedersenHash :: "jsval \<Rightarrow> jsval \<Rightarrow> string option"
  getSelectorFromName :: "jsval \<Rightarrow> string option"
  merkleRoot :: "jsval list \<Rightarrow> (jsval \<Rightarrow> jsval \<Rightarrow> string option) \<Rightarrow> jsval option"
  isHex :: "jsval \<Rightarrow> bool"
  toHex :: "jsval \<Rightarrow> string option"
  encodeShortString :: "string \<Rightarrow> string option"
  byteArrayFromString :: "jsval \<Rightarrow> ByteArray option"
  parseBigInt :: "jsval \<Rightarrow> int option"
  PRIME :: int
  revisionValue :: "Revision \<Rightarrow> jsval"
  runtimeMember :: "jsval \<Rightarrow> string \<Rightarrow> jsval option"

record Configuration =
  cfg_domain :: string
  hashMethod :: "jsval list \<Rightarrow> string option"
  hashMerkleMethod :: "jsval \<Rightarrow> jsval \<Rightarrow> string option"
  escapeTypeString :: "string \<Rightarrow> string"
  cfg_presetTypes :: types

subsection \<open>Property access\<close>

text \<open>
  Property access \<open>v[k]\<close> with a string key, and \<open>v[i]\<close> with a numeric index.
  Reading a property of \<open>null\<close> or \<open>undefined\<close> throws a \<open>TypeError\<close>.  An object
  yields its own property, else the member of \<open>Object.prototype\<close> of that name, else
  \<open>undefined\<close>.  An array and a string yield their own properties (the elements and
  the length); what they and the other values inherit is \<open>runtimeMember\<close>.
\<close>

definition inheritedMember :: "collaborators \<Rightarrow> jsval \<Rightarrow> string \<Rightarrow> jsval res" where
  "inheritedMember env v k =
     (case runtimeMember env v k of None \<Rightarrow> Inl TypeError | Some x \<Rightarrow> Inr x)"

fun getProp :: "collaborators \<Rightarrow> jsval \<Rightarrow> string \<Rightarrow> jsval res" where
  "getProp env JUndefined k = Inl TypeError"
| "getProp env JNull k = Inl TypeError"
| "getProp env (JObj kvs) k =
     Inr (case map_of kvs k of
            Some v \<Rightarrow> v
          | None \<Rightarrow> if k \<in> set objectPrototypeNames then JNative k else JUndefined)"
| "getProp env (JArr xs) k =
     (if k = ''length'' then Inr (JNum (int (length xs)))
      else (case find (\<lambda>i. decNat i = k) [0..<length xs] of
              Some i \<Rightarrow> Inr (xs ! i)
            | None \<Rightarrow> inheritedMember env (JArr xs) k))"
| "getProp env (JStr s) k =
     (if k = ''length'' then Inr (JNum (int (length s)))
      else (case find (\<lambda>i. decNat i = k) [0..<length s] of
              Some i \<Rightarrow> Inr (JStr [s ! i])
            | None \<Rightarrow> inheritedMember env (JStr s) k))"
| "getProp env (JBool b) k = inheritedMember env (JBool b) k"
| "getProp env (JNum i) k = inheritedMember env (JNum i) k"
| "getProp env (JBig i) k = inheritedMember env (JBig i) k"
| "getProp env (JNative n) k = inheritedMember env (JNative n) k"

fun getIndex :: "collaborators \<Rightarrow> jsval \<Rightarrow> nat \<Rightarrow> jsval res" where
  "getIndex env (JArr xs) i =
     (if i < length xs then Inr (xs ! i) else inheritedMember env (JArr xs) (decNat i))"
| "getIndex env (JStr s) i =
     (if i < length s then Inr (JStr [s ! i]) else inheritedMember env (JStr s) (decNat i))"
| "getIndex env v i = getProp env v (decNat i)"

subsection \<open>Constants and the revision table\<close>

text \<open>
  Modelled from the spec: the ranges \<open>RANGE_I128\<close>, \<open>RANGE_U128\<close> and \<open>RANGE_FELT\<close>
  of the constants module, which is not among the sources: the signed 128-bit range,
  the unsigned 128-bit range, and the field's range from zero to the modulus minus one.
\<close>

definition RANGE_I128 :: "int \<times> int" where
  "RANGE_I128 = (- (2 ^ 127), 2 ^ 127 - 1)"

definition RANGE_U128 :: "int \<times> int" where
  "RANGE_U128 = (0, 2 ^ 128 - 1)"

definition RANGE_FELT :: "collaborators \<Rightarrow> int \<times> int" where
  "RANGE_FELT env = (0, PRIME env - 1)"

definition presetTypes :: types where
  "presetTypes = map_of
     [(''u256'',
        [\<lparr>t_name = ''low'', t_type = ''u128'', t_contains = None\<rparr>,
         \<lparr>t_name = ''high'', t_type = ''u128'', t_contains = None\<rparr>]),
      (''TokenAmount'',
        [\<lparr>t_name = ''token_address'', t_type = ''ContractAddress'', t_contains = None\<rparr>,
         \<lparr>t_name = ''amount'', t_type = ''u256'', t_contains = None\<rparr>]),
      (''NftId'',
        [\<lparr>t_name = ''collection_address'', t_type = ''ContractAddress'', t_contains = None\<rparr>,
         \<lparr>t_name = ''token_id'', t_type = ''u256'', t_contains = None\<rparr>])]"

fun revisionConfiguration :: "collaborators \<Rightarrow> Revision \<Rightarrow> Configuration" where
  "revisionConfiguration env ACTIVE =
     \<lparr>cfg_domain = ''StarknetDomain'',
      hashMethod = computePoseidonHashOnElements env,
      hashMerkleMethod = computePoseidonHash env,
      escapeTypeString = (\<lambda>s. [CHR 0x22] @ s @ [CHR 0x22]),
      cfg_presetTypes = presetTypes\<rparr>"
| "revisionConfiguration env LEGACY =
     \<lparr>cfg_domain = ''StarkNetDomain'',
      hashMethod = computePedersenHashOnElements env,
      hashMerkleMethod = computePedersenHash env,
      escapeTypeString = (\<lambda>s. s),
      cfg_presetTypes = Map.empty\<rparr>"

subsection \<open>Range assertion, revision detection, hex conversion, validation\<close>

text \<open>\<open>BigInt(v)\<close>: the identity on a bigint, a \<open>TypeError\<close> on \<open>null\<close> and \<open>undefined\<close>.\<close>

fun jsBigInt :: "collaborators \<Rightarrow> jsval \<Rightarrow> int res" where
  "jsBigInt env (JBig i) = Inr i"
| "jsBigInt env (JNum i) = Inr i"
| "jsBigInt env (JBool b) = Inr (if b then 1 else 0)"
| "jsBigInt env JUndefined = Inl TypeError"
| "jsBigInt env JNull = Inl TypeError"
| "jsBigInt env v = (case parseBigInt env v of None \<Rightarrow> Inl SyntaxError | Some i \<Rightarrow> Inr i)"

text \<open>
  Modelled from the spec: \<open>assert\<close> of the assertion utility, which is not among the
  sources, throws when its condition is false.
\<close>

definition assertRange :: "collaborators \<Rightarrow> jsval \<Rightarrow> string \<Rightarrow> int \<times> int \<Rightarrow> unit res" where
  "assertRange env v type bounds =
     bindE (jsBigInt env v)
       (\<lambda>val. if fst bounds \<le> val \<and> val \<le> snd bounds then Inr ()
              else Inl (RangeViolation type))"

definition identifyRevision :: "collaborators \<Rightarrow> TypedData \<Rightarrow> Revision option res" where
  "identifyRevision env typedData =
     (case td_types typedData of
        None \<Rightarrow> Inl TypeError
      | Some types \<Rightarrow>
          bindE (if types (cfg_domain (revisionConfiguration env ACTIVE)) \<noteq> None
                 then bindE (getProp env (td_domain typedData) ''revision'')
                        (\<lambda>r. Inr (strictEq r (revisionValue env ACTIVE)))
                 else Inr False)
            (\<lambda>active.
               if active then Inr (Some ACTIVE)
               else bindE (if types (cfg_domain (revisionConfiguration env LEGACY)) \<noteq> None
                           then bindE (getProp env (td_domain typedData) ''revision'')
                                  (\<lambda>r. Inr (r = JUndefined \<or> r = JNull \<or>
                                         strictEq r (revisionValue env LEGACY)))
                           else Inr False)
                      (\<lambda>legacy. Inr (if legacy then Some LEGACY else None))))"

text \<open>
  Modelled from the spec: \<open>isString\<close> of the short-string module, which is not among
  the sources, holds of a textual value.
\<close>

fun isString :: "jsval \<Rightarrow> bool" where
  "isString (JStr s) = True"
| "isString v = False"

definition getHex :: "collaborators \<Rightarrow> jsval \<Rightarrow> string res" where
  "getHex env v =
     (case toHex env v of
        Some h \<Rightarrow> Inr h
      | None \<Rightarrow>
          (case v of
             JStr s \<Rightarrow> bindE (ext (encodeShortString env s)) (\<lambda>e. ext (toHex env (JStr e)))
           | _ \<Rightarrow> Inl ConversionError))"

definition validateTypedData :: "collaborators \<Rightarrow> TypedData \<Rightarrow> bool res" where
  "validateTypedData env typedData =
     (if \<not> truthy (td_message typedData) then Inr False
      else if td_primaryType typedData = [] then Inr False
      else if td_types typedData = None then Inr False
      else bindE (identifyRevision env typedData)
             (\<lambda>r. Inr (case r of None \<Rightarrow> False | Some revision \<Rightarrow> truthy (revisionValue env revision))))"

definition prepareSelector :: "collaborators \<Rightarrow> jsval \<Rightarrow> jsval res" where
  "prepareSelector env selector =
     (if isHex env selector then Inr selector
      else bindE (ext (getSelectorFromName env selector)) (\<lambda>s. Inr (JStr s)))"

definition isMerkleTreeType :: "StarknetType \<Rightarrow> bool" where
  "isMerkleTreeType t = (t_type t = ''merkletree'')"

subsection \<open>Dependencies of a type\<close>

text \<open>
  The name under which \<open>getDependencies\<close> looks a type up (lines 139 to 150): the
  array marker is stripped; otherwise, for the active revision, \<open>enum\<close> is replaced by
  the \<open>contains\<close> reference and a parenthesised string loses its parentheses.
\<close>

definition normalizeType :: "string \<Rightarrow> string \<Rightarrow> Revision \<Rightarrow> string" where
  "normalizeType type contains revision =
     (if endsWithStar type then butlast type
      else if revision = ACTIVE then
        (if type = ''enum'' then contains
         else if matchesParens type then slice_1_m1 type
         else type)
      else type)"

text \<open>
  \<open>getDependencies\<close> with its \<open>reduce\<close> over the fields of the type.  An absent
  \<open>contains\<close> is passed as \<open>undefined\<close> and takes the default value, the empty string.
  When the looked-up name is an inherited member, \<open>types[type]\<close> is truthy and has no
  method \<open>reduce\<close>: the call throws a \<open>TypeError\<close>.
\<close>

fun getDependencies ::
  "nat \<Rightarrow> types \<Rightarrow> string \<Rightarrow> string list \<Rightarrow> string \<Rightarrow> Revision \<Rightarrow> string list result"
and getDependencies_reduce ::
  "nat \<Rightarrow> types \<Rightarrow> Revision \<Rightarrow> string list \<Rightarrow> StarknetType list \<Rightarrow> string list result"
where
  "getDependencies 0 types type dependencies contains revision = None"
| "getDependencies (Suc n) types type dependencies contains revision =
     (if normalizeType type contains revision \<in> set dependencies then Some (Inr dependencies)
      else (case lookupType types (normalizeType type contains revision) of
              Undeclared \<Rightarrow> Some (Inr dependencies)
            | Inherited \<Rightarrow> Some (Inl TypeError)
            | Declared fs \<Rightarrow>
                (case getDependencies_reduce n types revision [] fs of
                   None \<Rightarrow> None
                 | Some (Inl e) \<Rightarrow> Some (Inl e)
                 | Some (Inr r) \<Rightarrow> Some (Inr (normalizeType type contains revision # r)))))"
| "getDependencies_reduce n types revision previous [] = Some (Inr previous)"
| "getDependencies_reduce n types revision previous (t # ts) =
     (case getDependencies n types (t_type t) previous
             (case t_contains t of None \<Rightarrow> [] | Some c \<Rightarrow> c) revision of
        None \<Rightarrow> None
      | Some (Inl e) \<Rightarrow> Some (Inl e)
      | Some (Inr ds) \<Rightarrow>
          getDependencies_reduce n types revision
            (previous @ filter (\<lambda>d. d \<notin> set previous) ds) ts)"

text \<open>
  In \<open>getMerkleTreeType\<close> and in the \<open>enum\<close> case below, \<open>types[name]\<close> is used as an
  array at once (\<open>find\<close>, index \<open>0\<close>): an undeclared name and an inherited member both
  end in a \<open>TypeError\<close>.
\<close>

definition getMerkleTreeType :: "types \<Rightarrow> Context \<Rightarrow> string res" where
  "getMerkleTreeType types ctx =
     (case (parent ctx, key ctx) of
        (Some p, Some k) \<Rightarrow>
          if p \<noteq> [] \<and> k \<noteq> [] then
            (case types p of
               None \<Rightarrow> Inl TypeError
             | Some parentType \<Rightarrow>
                 (case find (\<lambda>t. t_name t = k) parentType of
                    None \<Rightarrow> Inl TypeError
                  | Some merkleType \<Rightarrow>
                      if \<not> isMerkleTreeType merkleType then Inl (NotMerkleTree k)
                      else (case t_contains merkleType of
                              None \<Rightarrow> Inl TypeError
                            | Some c \<Rightarrow>
                                if endsWithStar c then Inl (MerkleContainsArray k)
                                else Inr c)))
          else Inr ''raw''
      | _ \<Rightarrow> Inr ''raw'')"

subsection \<open>Encoding a type\<close>

text \<open>One field of a type block: \<open>name:type\<close>, escaped (lines 211 to 225).\<close>

definition encodeTypeField :: "Revision \<Rightarrow> (string \<Rightarrow> string) \<Rightarrow> StarknetType \<Rightarrow> string res" where
  "encodeTypeField revision esc t =
     (case (if t_type t = ''enum'' \<and> revision = ACTIVE then t_contains t else Some (t_type t)) of
        None \<Rightarrow> Inl TypeError
      | Some targetType \<Rightarrow>
          Inr (esc (t_name t) @ '':'' @
               (if matchesParens targetType
                then ''('' @ join '','' (map (\<lambda>e. if e \<noteq> [] then esc e else e)
                                          (splitComma (slice_1_m1 targetType))) @ '')''
                else esc targetType)))"

text \<open>
  One type block: the escaped name and the fields between parentheses (line 226).
  \<open>allTypes[dependency].map\<close> throws a \<open>TypeError\<close> for an undeclared name and for an
  inherited member alike.
\<close>

definition encodeTypeBlock :: "types \<Rightarrow> Revision \<Rightarrow> (string \<Rightarrow> string) \<Rightarrow> string \<Rightarrow> string res" where
  "encodeTypeBlock allTypes revision esc dependency =
     (case allTypes dependency of
        None \<Rightarrow> Inl TypeError
      | Some fs \<Rightarrow>
          bindE (mapME (encodeTypeField revision esc) fs)
            (\<lambda>dependencyElements. Inr (esc dependency @ ''('' @ join '','' dependencyElements @ '')'')))"

definition encodeType :: "nat \<Rightarrow> collaborators \<Rightarrow> types \<Rightarrow> string \<Rightarrow> Revision \<Rightarrow> string result" where
  "encodeType n env types type revision =
     (let allTypes = (if revision = ACTIVE
                      then types ++ cfg_presetTypes (revisionConfiguration env revision)
                      else types)
      in case getDependencies n allTypes type [] [] revision of
           None \<Rightarrow> None
         | Some (Inl e) \<Rightarrow> Some (Inl e)
         | Some (Inr ds) \<Rightarrow>
             (let newTypes = (case ds of
                                [] \<Rightarrow> []
                              | primary # dependencies \<Rightarrow>
                                  if primary = [] then [] else primary # sort dependencies);
                  esc = escapeTypeString (revisionConfiguration env revision)
              in liftR (bindE (mapME (encodeTypeBlock allTypes revision esc) newTypes)
                          (\<lambda>blocks. Inr (join [] blocks)))))"

definition getTypeHash :: "nat \<Rightarrow> collaborators \<Rightarrow> types \<Rightarrow> string \<Rightarrow> Revision \<Rightarrow> string result" where
  "getTypeHash n env types type revision =
     bindR (encodeType n env types type revision)
       (\<lambda>s. liftR (ext (getSelectorFromName env (JStr s))))"

subsection \<open>Encoding a value\<close>

text \<open>
  The cases of the \<open>switch\<close> of \<open>encodeValue\<close> that make no recursive call
  (lines 276 to 370, without the active \<open>enum\<close> and without \<open>merkletree\<close>).
\<close>

definition encodeScalar :: "collaborators \<Rightarrow> string \<Rightarrow> jsval \<Rightarrow> Revision \<Rightarrow> (string \<times> jsval) res" where
  "encodeScalar env type v revision =
     (if type = ''enum'' then
        bindE (getHex env v) (\<lambda>h. Inr (type, JStr h))
      else if type = ''selector'' then
        bindE (prepareSelector env v) (\<lambda>s. Inr (''felt'', s))
      else if type = ''string'' then
        (if revision = ACTIVE then
           bindE (ext (byteArrayFromString env v))
             (\<lambda>byteArray.
                bindE (ext (hashMethod (revisionConfiguration env revision)
                         ([JNum (int (length (ba_data byteArray)))] @ ba_data byteArray @
                          [pending_word byteArray, pending_word_len byteArray])))
                  (\<lambda>h. Inr (type, JStr h)))
         else bindE (getHex env v) (\<lambda>h. Inr (type, JStr h)))
      else if type = ''i128'' then
        (if revision = ACTIVE then
           bindE (jsBigInt env v)
             (\<lambda>val.
                bindE (assertRange env (JBig val) type RANGE_I128)
                  (\<lambda>_. bindE (getHex env (JBig (if val < 0 then PRIME env + val else val)))
                          (\<lambda>h. Inr (type, JStr h))))
         else bindE (getHex env v) (\<lambda>h. Inr (type, JStr h)))
      else if type = ''timestamp'' \<or> type = ''u128'' then
        bindE (if revision = ACTIVE then assertRange env v type RANGE_U128 else Inr ())
          (\<lambda>_. bindE (getHex env v) (\<lambda>h. Inr (type, JStr h)))
      else if type = ''felt'' \<or> type = ''shortstring'' then
        bindE (if revision = ACTIVE
               then bindE (getHex env v) (\<lambda>h. assertRange env (JStr h) type (RANGE_FELT env))
               else Inr ())
          (\<lambda>_. bindE (getHex env v) (\<lambda>h. Inr (type, JStr h)))
      else if type = ''ClassHash'' \<or> type = ''ContractAddress'' then
        bindE (if revision = ACTIVE then assertRange env v type (RANGE_FELT env) else Inr ())
          (\<lambda>_. bindE (getHex env v) (\<lambda>h. Inr (type, JStr h)))
      else if type = ''bool'' then
        bindE (if revision = ACTIVE
               then (case v of JBool b \<Rightarrow> Inr () | _ \<Rightarrow> Inl (TypeMismatch type))
               else Inr ())
          (\<lambda>_. bindE (getHex env v) (\<lambda>h. Inr (type, JStr h)))
      else
        (if revision = ACTIVE then Inl (UnsupportedType type)
         else bindE (getHex env v) (\<lambda>h. Inr (type, JStr h))))"

text \<open>
  The variant of an active \<open>enum\<close> value (lines 279 to 284): the first entry of the
  value, the variant of that name in the type that the first field of the parent
  type contains, and its index there.  \<open>types[undefined]\<close> reads the key
  \<open>undefined\<close>.
\<close>

definition enumVariant :: "types \<Rightarrow> Context \<Rightarrow> jsval \<Rightarrow> (nat \<times> StarknetType \<times> jsval) res" where
  "enumVariant types ctx v =
     bindE (objectEntries v)
       (\<lambda>entries.
          case entries of
            [] \<Rightarrow> Inl TypeError
          | (variantKey, variantData) # _ \<Rightarrow>
              (case types (case parent ctx of None \<Rightarrow> ''undefined'' | Some p \<Rightarrow> p) of
                 None \<Rightarrow> Inl TypeError
               | Some [] \<Rightarrow> Inl TypeError
               | Some (parentType # _) \<Rightarrow>
                   (case types (case t_contains parentType of
                                  None \<Rightarrow> ''undefined'' | Some c \<Rightarrow> c) of
                      None \<Rightarrow> Inl TypeError
                    | Some enumType \<Rightarrow>
                        (case find (\<lambda>t. t_name t = variantKey) enumType of
                           None \<Rightarrow> Inl TypeError
                         | Some variantType \<Rightarrow>
                             Inr (length (takeWhile (\<lambda>t. t_name t \<noteq> variantKey) enumType),
                                  variantType, variantData)))))"

text \<open>
  \<open>encodeValue\<close>, \<open>encodeData\<close> and \<open>getStructHash\<close> call each other.  The
  recursion is on the fuel: the bodies of \<open>encodeData\<close> and \<open>getStructHash\<close> take
  the encoder they call as the argument \<open>enc\<close>, and \<open>encodeValue\<close> passes itself with
  one unit of fuel less.  The loops of the source are functions of their own:
  \<open>mapMR\<close> is the \<open>map\<close> over the elements of an array (lines 270 and 303),
  \<open>encodeValue_subtypes\<close> the \<open>map\<close> over the subtypes of a variant (line 289),
  \<open>encodeData_reduce\<close> the \<open>reduce\<close> over the fields (line 384).
\<close>

type_synonym encoder =
  "types \<Rightarrow> string \<Rightarrow> jsval \<Rightarrow> Context \<Rightarrow> Revision \<Rightarrow> (string \<times> jsval) result"

fun mapMR :: "('a \<Rightarrow> 'b result) \<Rightarrow> 'a list \<Rightarrow> 'b list result" where
  "mapMR f [] = returnR []"
| "mapMR f (x # xs) = bindR (f x) (\<lambda>y. bindR (mapMR f xs) (\<lambda>ys. returnR (y # ys)))"

fun encodeValue_subtypes ::
  "encoder \<Rightarrow> collaborators \<Rightarrow> types \<Rightarrow> jsval \<Rightarrow> nat \<Rightarrow> string list \<Rightarrow> Revision \<Rightarrow>
   jsval list result"
where
  "encodeValue_subtypes enc env types variantData index [] revision = returnR []"
| "encodeValue_subtypes enc env types variantData index (subtype # subtypes) revision =
     bindR (if subtype = [] then returnR (JStr subtype)
            else bindR (liftR (getIndex env variantData index))
                   (\<lambda>subtypeData.
                      bindR (enc types subtype subtypeData \<lparr>parent = None, key = None\<rparr> revision)
                        (\<lambda>r. returnR (snd r))))
       (\<lambda>h. bindR (encodeValue_subtypes enc env types variantData (Suc index) subtypes revision)
               (\<lambda>hs. returnR (h # hs)))"

fun encodeData_reduce ::
  "encoder \<Rightarrow> collaborators \<Rightarrow> types \<Rightarrow> string \<Rightarrow> jsval \<Rightarrow> Revision \<Rightarrow>
   string list \<times> jsval list \<Rightarrow> StarknetType list \<Rightarrow> (string list \<times> jsval list) result"
where
  "encodeData_reduce enc env types type v revision acc [] = returnR acc"
| "encodeData_reduce enc env types type v revision acc (field # rest) =
     bindR (liftR (getProp env v (t_name field)))
       (\<lambda>x. if x = JUndefined \<or> (x = JNull \<and> t_type field \<noteq> ''enum'')
            then throwR (MissingField (t_name field))
            else bindR (enc types (t_type field) x
                          \<lparr>parent = Some type, key = Some (t_name field)\<rparr> revision)
                   (\<lambda>r. encodeData_reduce enc env types type v revision
                          (fst acc @ [fst r], snd acc @ [snd r]) rest))"

text \<open>
  The body of \<open>encodeData\<close>.  With \<open>targetType\<close> undefined, reading \<open>reduce\<close> throws
  before the arguments of the call are evaluated; with an inherited member, \<open>reduce\<close>
  reads as undefined, the type hash is computed as an argument, and the call then
  throws.
\<close>

definition encodeData_body ::
  "encoder \<Rightarrow> nat \<Rightarrow> collaborators \<Rightarrow> types \<Rightarrow> string \<Rightarrow> jsval \<Rightarrow> Revision \<Rightarrow>
   (string list \<times> jsval list) result"
where
  "encodeData_body enc n env types type v revision =
     (case (case lookupType types type of
              Undeclared \<Rightarrow> lookupType (cfg_presetTypes (revisionConfiguration env revision)) type
            | found \<Rightarrow> found) of
        Undeclared \<Rightarrow> throwR TypeError
      | Inherited \<Rightarrow>
          bindR (getTypeHash n env types type revision) (\<lambda>h. throwR TypeError)
      | Declared targetType \<Rightarrow>
          bindR (getTypeHash n env types type revision)
            (\<lambda>h. encodeData_reduce enc env types type v revision
                   ([''felt''], [JStr h]) targetType))"

definition getStructHash_body ::
  "encoder \<Rightarrow> nat \<Rightarrow> collaborators \<Rightarrow> types \<Rightarrow> string \<Rightarrow> jsval \<Rightarrow> Revision \<Rightarrow> jsval result"
where
  "getStructHash_body enc n env types type v revision =
     bindR (encodeData_body enc n env types type v revision)
       (\<lambda>r. liftR (bindE (ext (hashMethod (revisionConfiguration env revision) (snd r)))
                     (\<lambda>h. Inr (JStr h))))"

definition encodeValue_body ::
  "encoder \<Rightarrow> nat \<Rightarrow> collaborators \<Rightarrow> types \<Rightarrow> string \<Rightarrow> jsval \<Rightarrow> Context \<Rightarrow> Revision \<Rightarrow>
   (string \<times> jsval) result"
where
  "encodeValue_body enc n env types type v ctx revision =
     (if lookupType types type \<noteq> Undeclared then
        bindR (getStructHash_body enc n env types type v revision) (\<lambda>h. returnR (type, h))
      else if lookupType (cfg_presetTypes (revisionConfiguration env revision)) type \<noteq> Undeclared
      then
        bindR (getStructHash_body enc n env (cfg_presetTypes (revisionConfiguration env revision))
                 type v revision)
          (\<lambda>h. returnR (type, h))
      else if endsWithStar type then
        (case v of
           JArr entries \<Rightarrow>
             bindR (mapMR (\<lambda>entry. bindR (enc types (butlast type) entry
                                            \<lparr>parent = None, key = None\<rparr> revision)
                                     (\<lambda>r. returnR (snd r)))
                      entries)
               (\<lambda>hashes.
                  liftR (bindE (ext (hashMethod (revisionConfiguration env revision) hashes))
                           (\<lambda>h. Inr (type, JStr h))))
         | _ \<Rightarrow> throwR TypeError)
      else if type = ''enum'' \<and> revision = ACTIVE then
        bindR (liftR (enumVariant types ctx v))
          (\<lambda>variant.
             bindR (encodeValue_subtypes enc env types (snd (snd variant)) 0
                      (splitComma (slice_1_m1 (t_type (fst (snd variant))))) revision)
               (\<lambda>encodedSubtypes.
                  liftR (bindE (ext (hashMethod (revisionConfiguration env revision)
                                  (JNum (int (fst variant)) # encodedSubtypes)))
                           (\<lambda>h. Inr (type, JStr h)))))
      else if type = ''merkletree'' then
        bindR (liftR (getMerkleTreeType types ctx))
          (\<lambda>merkleTreeType.
             case v of
               JArr structs \<Rightarrow>
                 bindR (mapMR (\<lambda>struct. bindR (enc types merkleTreeType struct
                                                 \<lparr>parent = None, key = None\<rparr> revision)
                                          (\<lambda>r. returnR (snd r)))
                          structs)
                   (\<lambda>structHashes.
                      liftR (bindE (ext (merkleRoot env structHashes
                                      (hashMerkleMethod (revisionConfiguration env revision))))
                               (\<lambda>root. Inr (''felt'', root))))
             | _ \<Rightarrow> throwR TypeError)
      else liftR (encodeScalar env type v revision))"

primrec encodeValue ::
  "nat \<Rightarrow> collaborators \<Rightarrow> types \<Rightarrow> string \<Rightarrow> jsval \<Rightarrow> Context \<Rightarrow> Revision \<Rightarrow> (string \<times> jsval) result"
where
  "encodeValue 0 env types type v ctx revision = None"
| "encodeValue (Suc n) env types type v ctx revision =
     encodeValue_body (encodeValue n env) n env types type v ctx revision"

definition encodeData ::
  "nat \<Rightarrow> collaborators \<Rightarrow> types \<Rightarrow> string \<Rightarrow> jsval \<Rightarrow> Revision \<Rightarrow> (string list \<times> jsval list) result"
where
  "encodeData n env types type v revision =
     encodeData_body (encodeValue n env) n env types type v revision"

definition getStructHash ::
  "nat \<Rightarrow> collaborators \<Rightarrow> types \<Rightarrow> string \<Rightarrow> jsval \<Rightarrow> Revision \<Rightarrow> jsval result"
where
  "getStructHash n env types type v revision =
     getStructHash_body (encodeValue n env) n env types type v revision"

subsection \<open>The message hash\<close>

definition getMessageHash :: "nat \<Rightarrow> collaborators \<Rightarrow> TypedData \<Rightarrow> jsval \<Rightarrow> string result" where
  "getMessageHash n env typedData account =
     (case validateTypedData env typedData of
        Inl e \<Rightarrow> throwR e
      | Inr False \<Rightarrow> throwR SchemaMismatch
      | Inr True \<Rightarrow>
          (case (identifyRevision env typedData, td_types typedData) of
             (Inr (Some revision), Some types) \<Rightarrow>
               bindR (liftR (ext (encodeShortString env ''StarkNet Message'')))
                 (\<lambda>prefix.
                    bindR (getStructHash n env types
                             (cfg_domain (revisionConfiguration env revision))
                             (td_domain typedData) revision)
                      (\<lambda>domainHash.
                         bindR (getStructHash n env types (td_primaryType typedData)
                                  (td_message typedData) revision)
                           (\<lambda>messageHash.
                              liftR (ext (hashMethod (revisionConfiguration env revision)
                                            [JStr prefix, domainHash, account, messageHash])))))
           | (Inl e, _) \<Rightarrow> throwR e
           | _ \<Rightarrow> throwR TypeError))"

subsection \<open>A symbolic instance of the collaborators\<close>

text \<open>
  An instance of the imports on which the definitions can be evaluated: a hash is the
  formal term of its arguments, numbers are rendered in hexadecimal, a short string
  is the hexadecimal rendering of its characters, the members of the revision
  enumeration are the strings \<open>1\<close> (active) and \<open>0\<close> (legacy), and a value other than
  a plain object inherits nothing.
\<close>

fun hexNat :: "nat \<Rightarrow> string" where
  "hexNat n =
     (if n < 16 then [''0123456789abcdef'' ! n]
      else hexNat (n div 16) @ [''0123456789abcdef'' ! (n mod 16)])"

declare hexNat.simps [simp del]

definition digitValue :: "char \<rightharpoonup> nat" where
  "digitValue = map_of
     [(CHR ''0'', 0), (CHR ''1'', 1), (CHR ''2'', 2), (CHR ''3'', 3), (CHR ''4'', 4),
      (CHR ''5'', 5), (CHR ''6'', 6), (CHR ''7'', 7), (CHR ''8'', 8), (CHR ''9'', 9),
      (CHR ''a'', 10), (CHR ''b'', 11), (CHR ''c'', 12), (CHR ''d'', 13), (CHR ''e'', 14),
      (CHR ''f'', 15)]"

fun parseDigits :: "nat \<Rightarrow> nat \<Rightarrow> string \<Rightarrow> nat option" where
  "parseDigits base acc [] = Some acc"
| "parseDigits base acc (c # cs) =
     (case digitValue c of
        None \<Rightarrow> None
      | Some d \<Rightarrow> if d < base then parseDigits base (acc * base + d) cs else None)"

definition symParseString :: "string \<Rightarrow> int option" where
  "symParseString s =
     (if take 2 s = ''0x'' then map_option int (parseDigits 16 0 (drop 2 s))
      else if take 1 s = ''-'' \<and> drop 1 s \<noteq> [] then
        map_option (\<lambda>n. - int n) (parseDigits 10 0 (drop 1 s))
      else map_option int (parseDigits 10 0 s))"

definition symParseBigInt :: "jsval \<Rightarrow> int option" where
  "symParseBigInt v = (case v of JStr s \<Rightarrow> symParseString s | _ \<Rightarrow> None)"

definition symToHex :: "jsval \<Rightarrow> string option" where
  "symToHex v =
     (case (case v of
              JBig i \<Rightarrow> Some i
            | JNum i \<Rightarrow> Some i
            | JBool b \<Rightarrow> Some (if b then 1 else 0)
            | JStr s \<Rightarrow> symParseString s
            | _ \<Rightarrow> None) of
        None \<Rightarrow> None
      | Some i \<Rightarrow> if 0 \<le> i then Some (''0x'' @ hexNat (nat i)) else None)"

definition symIsHex :: "jsval \<Rightarrow> bool" where
  "symIsHex v =
     (case v of
        JStr s \<Rightarrow> take 2 s = ''0x'' \<and> parseDigits 16 0 (drop 2 s) \<noteq> None
      | _ \<Rightarrow> False)"

definition symEncodeShortString :: "string \<Rightarrow> string option" where
  "symEncodeShortString s =
     (if length s < 32 then Some (''0x'' @ concat (map (\<lambda>c. hexNat (of_char c)) s)) else None)"

definition symText :: "jsval \<Rightarrow> string option" where
  "symText v =
     (case v of
        JStr s \<Rightarrow> Some s
      | JNum i \<Rightarrow> if 0 \<le> i then Some (decNat (nat i)) else None
      | JBig i \<Rightarrow> if 0 \<le> i then Some (decNat (nat i)) else None
      | _ \<Rightarrow> None)"

fun symTexts :: "jsval list \<Rightarrow> string list option" where
  "symTexts [] = Some []"
| "symTexts (v # vs) =
     (case symText v of
        None \<Rightarrow> None
      | Some s \<Rightarrow> (case symTexts vs of None \<Rightarrow> None | Some ss \<Rightarrow> Some (s # ss)))"

definition symHash :: "string \<Rightarrow> jsval list \<Rightarrow> string option" where
  "symHash tag vs = map_option (\<lambda>ss. tag @ ''('' @ join '','' ss @ '')'') (symTexts vs)"

fun symMerkleFold :: "(jsval \<Rightarrow> jsval \<Rightarrow> string option) \<Rightarrow> jsval \<Rightarrow> jsval list \<Rightarrow> jsval option" where
  "symMerkleFold h a [] = Some a"
| "symMerkleFold h a (b # bs) =
     (case h a b of None \<Rightarrow> None | Some c \<Rightarrow> symMerkleFold h (JStr c) bs)"

definition symMerkleRoot :: "jsval list \<Rightarrow> (jsval \<Rightarrow> jsval \<Rightarrow> string option) \<Rightarrow> jsval option" where
  "symMerkleRoot leaves h =
     (case leaves of [] \<Rightarrow> Some (JStr ''0x0'') | a # bs \<Rightarrow> symMerkleFold h a bs)"

definition symByteArray :: "jsval \<Rightarrow> ByteArray option" where
  "symByteArray v =
     (case v of
        JStr s \<Rightarrow>
          (if length s < 31
           then map_option
                  (\<lambda>w. \<lparr>ba_data = [], pending_word = JStr w,
                        pending_word_len = JNum (int (length s))\<rparr>)
                  (symEncodeShortString s)
           else None)
      | _ \<Rightarrow> None)"

definition symbolic :: collaborators where
  "symbolic =
     \<lparr>computePoseidonHashOnElements = symHash ''poseidon'',
      computePedersenHashOnElements = symHash ''pedersen'',
      computePoseidonHash = (\<lambda>a b. symHash ''poseidon'' [a, b]),
      computePedersenHash = (\<lambda>a b. symHash ''pedersen'' [a, b]),
      getSelectorFromName = (\<lambda>v. case v of JStr s \<Rightarrow> Some (''sn_keccak('' @ s @ '')'') | _ \<Rightarrow> None),
      merkleRoot = symMerkleRoot,
      isHex = symIsHex,
      toHex = symToHex,
      encodeShortString = symEncodeShortString,
      byteArrayFromString = symByteArray,
      parseBigInt = symParseBigInt,
      PRIME = 2 ^ 251 + 17 * 2 ^ 192 + 1,
      revisionValue = (\<lambda>r. case r of ACTIVE \<Rightarrow> JStr ''1'' | LEGACY \<Rightarrow> JStr ''0''),
      runtimeMember = (\<lambda>v k. Some JUndefined)\<rparr>"

subsection \<open>Notions used in the statements\<close>

text \<open>The labels of the \<open>switch\<close> of \<open>encodeValue\<close> (lines 277 to 358).\<close>

definition knownTags :: "string list" where
  "knownTags =
     [''enum'', ''merkletree'', ''selector'', ''string'', ''i128'', ''timestamp'', ''u128'',
      ''felt'', ''shortstring'', ''ClassHash'', ''ContractAddress'', ''bool'']"

text \<open>A field that the missing-data test of \<open>encodeData\<close> rejects.\<close>

definition missingData :: "jsval \<Rightarrow> StarknetType \<Rightarrow> bool" where
  "missingData x field = (x = JUndefined \<or> (x = JNull \<and> t_type field \<noteq> ''enum''))"

text \<open>
  The type string of section 4.3 of the specification, in its words: each type block is
  the escaped name followed by the comma-separated fields between parentheses; a
  field is its escaped name, a colon and its type string; a parenthesised type string
  has each non-empty element between its commas escaped on its own; an \<open>enum\<close> field of
  the active revision is rendered by its \<open>contains\<close> reference; the blocks of the
  primary type and of the sorted other dependencies follow each other with nothing
  between them.
\<close>

definition spec_typeString :: "(string \<Rightarrow> string) \<Rightarrow> string \<Rightarrow> string" where
  "spec_typeString esc s =
     (if matchesParens s
      then ''('' @ join '','' (map (\<lambda>e. if e = [] then [] else esc e)
                                (splitComma (slice_1_m1 s))) @ '')''
      else esc s)"

definition spec_fieldString :: "Revision \<Rightarrow> (string \<Rightarrow> string) \<Rightarrow> StarknetType \<Rightarrow> string" where
  "spec_fieldString revision esc t =
     esc (t_name t) @ '':'' @
     spec_typeString esc
       (if revision = ACTIVE \<and> t_type t = ''enum''
        then (case t_contains t of Some c \<Rightarrow> c | None \<Rightarrow> [])
        else t_type t)"

definition spec_typeBlock :: "types \<Rightarrow> Revision \<Rightarrow> (string \<Rightarrow> string) \<Rightarrow> string \<Rightarrow> string" where
  "spec_typeBlock universe revision esc name =
     esc name @ ''('' @
     join '','' (map (spec_fieldString revision esc)
                  (case universe name of None \<Rightarrow> [] | Some fs \<Rightarrow> fs)) @ '')''"

definition spec_encodeType ::
  "types \<Rightarrow> Revision \<Rightarrow> (string \<Rightarrow> string) \<Rightarrow> string \<Rightarrow> string list \<Rightarrow> string" where
  "spec_encodeType universe revision esc primary dependencies =
     concat (map (spec_typeBlock universe revision esc) (primary # sort dependencies))"

definition enumFieldsContain :: "types \<Rightarrow> Revision \<Rightarrow> string list \<Rightarrow> bool" where
  "enumFieldsContain universe revision names =
     list_all (\<lambda>d. case universe d of
                     None \<Rightarrow> True
                   | Some fs \<Rightarrow>
                       list_all (\<lambda>t. \<not> (revision = ACTIVE \<and> t_type t = ''enum'') \<or>
                                     t_contains t \<noteq> None) fs) names"

text \<open>A string between double quotes, to write the escaped names of the active revision.\<close>

definition quoted :: "string \<Rightarrow> string" where
  "quoted s = [CHR 0x22] @ s @ [CHR 0x22]"

text \<open>The fields of a declared type resolve within the fuel \<open>n\<close>.\<close>

definition resolves :: "nat \<Rightarrow> types \<Rightarrow> Revision \<Rightarrow> string \<Rightarrow> bool" where
  "resolves n types revision T =
     (case types T of
        None \<Rightarrow> False
      | Some fs \<Rightarrow>
          (case getDependencies_reduce n types revision [] fs of
             Some (Inr q) \<Rightarrow> True
           | _ \<Rightarrow> False))"

text \<open>A result that is not the schema-mismatch error.\<close>

definition noSchemaE :: "'a res \<Rightarrow> bool" where
  "noSchemaE m = (m \<noteq> Inl SchemaMismatch)"

definition noSchema :: "'a result \<Rightarrow> bool" where
  "noSchema m = (m \<noteq> Some (Inl SchemaMismatch))"

subsection \<open>Sample type universes and documents\<close>

definition sampleTypes :: types where
  "sampleTypes = map_of
     [(''A'', [\<lparr>t_name = ''x'', t_type = ''B*'', t_contains = None\<rparr>,
               \<lparr>t_name = ''y'', t_type = ''C'', t_contains = None\<rparr>,
               \<lparr>t_name = ''z'', t_type = ''B'', t_contains = None\<rparr>]),
      (''B'', [\<lparr>t_name = ''w'', t_type = ''C'', t_contains = None\<rparr>,
               \<lparr>t_name = ''v'', t_type = ''felt'', t_contains = None\<rparr>]),
      (''C'', []),
      (''enum'', []),
      (''X'', [])]"

definition mailTypes :: types where
  "mailTypes = map_of
     [(''StarkNetDomain'',
        [\<lparr>t_name = ''name'', t_type = ''felt'', t_contains = None\<rparr>,
         \<lparr>t_name = ''version'', t_type = ''felt'', t_contains = None\<rparr>]),
      (''Mail'',
        [\<lparr>t_name = ''from'', t_type = ''felt'', t_contains = None\<rparr>,
         \<lparr>t_name = ''amount'', t_type = ''u128'', t_contains = None\<rparr>])]"

definition mailDocument :: TypedData where
  "mailDocument =
     \<lparr>td_types = Some mailTypes, td_primaryType = ''Mail'',
      td_domain = JObj [(''name'', JStr ''1''), (''version'', JStr ''1'')],
      td_message = JObj [(''from'', JStr ''0x7''), (''amount'', JNum 5)]\<rparr>"

definition enumTypes :: types where
  "enumTypes = map_of
     [(''StarknetDomain'',
        [\<lparr>t_name = ''name'', t_type = ''shortstring'', t_contains = None\<rparr>,
         \<lparr>t_name = ''revision'', t_type = ''shortstring'', t_contains = None\<rparr>]),
      (''T'', [\<lparr>t_name = ''e'', t_type = ''enum'', t_contains = Some ''E''\<rparr>]),
      (''E'', [\<lparr>t_name = ''A'', t_type = ''()'', t_contains = None\<rparr>,
               \<lparr>t_name = ''B'', t_type = ''(u128,felt*)'', t_contains = None\<rparr>])]"

definition enumDocument :: TypedData where
  "enumDocument =
     \<lparr>td_types = Some enumTypes, td_primaryType = ''T'',
      td_domain = JObj [(''name'', JStr ''1''), (''revision'', JStr ''1'')],
      td_message = JObj [(''e'', JObj [(''B'', JArr [JNum 5, JArr [JStr ''1'', JStr ''2'']])])]\<rparr>"

definition merkleTypes :: types where
  "merkleTypes = map_of
     [(''Session'', [\<lparr>t_name = ''root'', t_type = ''merkletree'', t_contains = Some ''Leaf''\<rparr>,
                     \<lparr>t_name = ''bad'', t_type = ''felt'', t_contains = None\<rparr>,
                     \<lparr>t_name = ''arr'', t_type = ''merkletree'', t_contains = Some ''Leaf*''\<rparr>]),
      (''Leaf'', [\<lparr>t_name = ''v'', t_type = ''felt'', t_contains = None\<rparr>])]"

definition pingDocument :: TypedData where
  "pingDocument =
     \<lparr>td_types = Some (map_of [(''StarkNetDomain'', []), (''Ping'', [])]),
      td_primaryType = ''Ping'', td_domain = JObj [], td_message = JObj []\<rparr>"

definition nullRevisionDocument :: TypedData where
  "nullRevisionDocument =
     \<lparr>td_types = Some mailTypes, td_primaryType = ''Mail'',
      td_domain = JObj [(''name'', JStr ''1''), (''version'', JStr ''1''), (''revision'', JNull)],
      td_message = JObj [(''from'', JStr ''0x7''), (''amount'', JNum 5)]\<rparr>"

section \<open>Properties\<close>

subsection \<open>The result monads\<close>

lemma bindE_simps [simp]:
  "bindE (Inl e) f = Inl e"
  "bindE (Inr v) f = f v"
  by (simp_all add: bindE_def)

lemma bindR_simps [simp]:
  "bindR None f = None"
  "bindR (Some (Inl e)) f = Some (Inl e)"
  "bindR (Some (Inr v)) f = f v"
  "bindR (throwR e) f = throwR e"
  "bindR (returnR v) f = f v"
  "bindR (liftR (Inl e)) f = Some (Inl e)"
  "bindR (liftR (Inr v)) f = f v"
  by (simp_all add: bindR_def throwR_def returnR_def liftR_def)

lemma ext_simps [simp]:
  "ext None = Inl ExternalFailure"
  "ext (Some v) = Inr v"
  by (simp_all add: ext_def)

subsection \<open>Looking a type up\<close>

lemma lookupType_Declared [simp]: "lookupType types name = Declared fs \<longleftrightarrow> types name = Some fs"
  by (auto simp: lookupType_def split: option.splits)

lemma lookupType_Undeclared:
  "lookupType types name = Undeclared \<longleftrightarrow> types name = None \<and> name \<notin> set objectPrototypeNames"
  by (auto simp: lookupType_def split: option.splits)

lemma lookupType_Inherited:
  "lookupType types name = Inherited \<longleftrightarrow> types name = None \<and> name \<in> set objectPrototypeNames"
  by (auto simp: lookupType_def split: option.splits)

text \<open>An inherited name is looked up as it stands, and is no preset type.\<close>

lemma inherited_name_plain:
  assumes "name \<in> set objectPrototypeNames"
  shows "normalizeType name contains revision = name" and "presetTypes name = None"
proof -
  have "list_all (\<lambda>k. \<not> endsWithStar k \<and> k \<noteq> ''enum'' \<and> \<not> matchesParens k \<and>
                      presetTypes k = None) objectPrototypeNames"
    by code_simp
  with assms have "\<not> endsWithStar name \<and> name \<noteq> ''enum'' \<and> \<not> matchesParens name \<and>
      presetTypes name = None"
    by (simp add: list_all_iff)
  then show "normalizeType name contains revision = name" and "presetTypes name = None"
    by (simp_all add: normalizeType_def)
qed

subsection \<open>Dependencies: fuel, reachability, distinctness\<close>

lemma getDependencies_fuel_Suc:
  "getDependencies n types type dependencies contains revision = Some (Inr r) \<Longrightarrow>
   getDependencies (Suc n) types type dependencies contains revision = Some (Inr r)"
  "getDependencies_reduce n types revision previous fs = Some (Inr r') \<Longrightarrow>
   getDependencies_reduce (Suc n) types revision previous fs = Some (Inr r')"
proof (induction n types type dependencies contains revision and n types revision previous fs
       arbitrary: r and r' rule: getDependencies_getDependencies_reduce.induct)
  case (1 types type dependencies contains revision)
  then show ?case by simp
next
  case (2 n types type dependencies contains revision)
  let ?T = "normalizeType type contains revision"
  show ?case
  proof (cases "?T \<in> set dependencies")
    case True
    with 2(2) show ?thesis by simp
  next
    case False
    show ?thesis
    proof (cases "lookupType types ?T")
      case (Declared fs)
      with False 2(2) obtain q where q: "getDependencies_reduce n types revision [] fs = Some (Inr q)"
        and r: "r = ?T # q"
        by (auto split: option.splits sum.splits)
      from 2(1)[OF False Declared q]
      have "getDependencies_reduce (Suc n) types revision [] fs = Some (Inr q)" .
      with Declared False r show ?thesis by (simp del: lookupType_Declared)
    next
      case Inherited
      with False 2(2) show ?thesis by simp
    next
      case Undeclared
      with False 2(2) show ?thesis by simp
    qed
  qed
next
  case (3 n types revision previous)
  then show ?case by simp
next
  case (4 n types revision previous t ts)
  from 4(3) obtain ds where
    ds: "getDependencies n types (t_type t) previous
           (case t_contains t of None \<Rightarrow> [] | Some c \<Rightarrow> c) revision = Some (Inr ds)"
    and rest: "getDependencies_reduce n types revision
                 (previous @ filter (\<lambda>d. d \<notin> set previous) ds) ts = Some (Inr r')"
    by (auto split: option.splits sum.splits)
  from 4(1)[OF ds] 4(2)[OF ds refl rest] show ?case by simp
qed

lemma getDependencies_fuel_mono:
  assumes "m \<le> n"
  shows "getDependencies m types type dependencies contains revision = Some (Inr r) \<Longrightarrow>
         getDependencies n types type dependencies contains revision = Some (Inr r)"
    and "getDependencies_reduce m types revision previous fs = Some (Inr r') \<Longrightarrow>
         getDependencies_reduce n types revision previous fs = Some (Inr r')"
  using assms
  by (induction n)
     (auto simp: le_Suc_eq getDependencies_fuel_Suc
           simp del: getDependencies.simps getDependencies_reduce.simps)

text \<open>
  Every name of the result was in the accumulator, or is a declared type whose own
  fields resolved with less fuel.
\<close>

lemma getDependencies_reach:
  "getDependencies n types type dependencies contains revision = Some (Inr r) \<Longrightarrow>
   X \<in> set r \<Longrightarrow> X \<in> set dependencies \<or> (\<exists>m<n. resolves m types revision X)"
  "getDependencies_reduce n types revision previous fs = Some (Inr r') \<Longrightarrow>
   X \<in> set r' \<Longrightarrow> X \<in> set previous \<or> (\<exists>m<n. resolves m types revision X)"
proof (induction n types type dependencies contains revision and n types revision previous fs
       arbitrary: r and r' rule: getDependencies_getDependencies_reduce.induct)
  case (1 types type dependencies contains revision)
  then show ?case by simp
next
  case (2 n types type dependencies contains revision)
  let ?T = "normalizeType type contains revision"
  show ?case
  proof (cases "?T \<in> set dependencies")
    case True
    with 2(2,3) show ?thesis by simp
  next
    case False
    show ?thesis
    proof (cases "lookupType types ?T")
      case (Declared fs)
      with False 2(2) obtain q where q: "getDependencies_reduce n types revision [] fs = Some (Inr q)"
        and r: "r = ?T # q"
        by (auto split: option.splits sum.splits)
      from 2(3) r consider "X = ?T" | "X \<in> set q" by auto
      then show ?thesis
      proof cases
        case 1
        have "resolves n types revision X" using Declared q 1 by (simp add: resolves_def)
        then show ?thesis by blast
      next
        case 2
        from "2.IH"[OF False Declared q 2] obtain m where "m < n" "resolves m types revision X"
          by auto
        then show ?thesis using less_Suc_eq by blast
      qed
    next
      case Inherited
      with False 2(2) show ?thesis by simp
    next
      case Undeclared
      with False 2(2,3) show ?thesis by simp
    qed
  qed
next
  case (3 n types revision previous)
  then show ?case by simp
next
  case (4 n types revision previous t ts)
  from 4(3) obtain ds where
    ds: "getDependencies n types (t_type t) previous
           (case t_contains t of None \<Rightarrow> [] | Some c \<Rightarrow> c) revision = Some (Inr ds)"
    and rest: "getDependencies_reduce n types revision
                 (previous @ filter (\<lambda>d. d \<notin> set previous) ds) ts = Some (Inr r')"
    by (auto split: option.splits sum.splits)
  from 4(2)[OF ds refl rest 4(4)]
  have "X \<in> set previous \<or> X \<in> set ds \<or> (\<exists>m<n. resolves m types revision X)" by auto
  with 4(1)[OF ds] show ?case by blast
qed

text \<open>
  A declared type whose fields resolve is not among the names its fields resolve to:
  otherwise its fields would resolve with less fuel to the same list, and so on down.
\<close>

lemma getDependencies_reduce_no_self:
  "types T = Some fs \<Longrightarrow> getDependencies_reduce n types revision [] fs = Some (Inr r) \<Longrightarrow>
   T \<notin> set r"
proof (induction n arbitrary: r rule: less_induct)
  case (less n)
  show ?case
  proof
    assume "T \<in> set r"
    with getDependencies_reach(2)[OF less.prems(2)]
    obtain m where m: "m < n" "resolves m types revision T"
      by auto
    then obtain q where q: "getDependencies_reduce m types revision [] fs = Some (Inr q)"
      using less.prems(1) by (auto simp: resolves_def split: option.splits sum.splits)
    from getDependencies_fuel_mono(2)[OF _ q, of n] m(1) less.prems(2) have "q = r" by simp
    with less.IH[OF m(1) less.prems(1) q] \<open>T \<in> set r\<close> show False by simp
  qed
qed

lemma getDependencies_no_duplicates:
  "getDependencies n types type dependencies contains revision = Some (Inr r) \<Longrightarrow>
   distinct dependencies \<Longrightarrow> distinct r"
  "getDependencies_reduce n types revision previous fs = Some (Inr r') \<Longrightarrow>
   distinct previous \<Longrightarrow> distinct r'"
proof (induction n types type dependencies contains revision and n types revision previous fs
       arbitrary: r and r' rule: getDependencies_getDependencies_reduce.induct)
  case (1 types type dependencies contains revision)
  then show ?case by simp
next
  case (2 n types type dependencies contains revision)
  let ?T = "normalizeType type contains revision"
  show ?case
  proof (cases "?T \<in> set dependencies")
    case True
    with 2(2,3) show ?thesis by simp
  next
    case False
    show ?thesis
    proof (cases "lookupType types ?T")
      case (Declared fs)
      with False 2(2) obtain q where q: "getDependencies_reduce n types revision [] fs = Some (Inr q)"
        and r: "r = ?T # q"
        by (auto split: option.splits sum.splits)
      have "distinct q" using "2.IH"[OF False Declared q] by simp
      moreover have "types ?T = Some fs" using Declared by simp
      from getDependencies_reduce_no_self[OF this q] have "?T \<notin> set q" .
      ultimately show ?thesis using r by simp
    next
      case Inherited
      with False 2(2) show ?thesis by simp
    next
      case Undeclared
      with False 2(2,3) show ?thesis by simp
    qed
  qed
next
  case (3 n types revision previous)
  then show ?case by simp
next
  case (4 n types revision previous t ts)
  from 4(3) obtain ds where
    ds: "getDependencies n types (t_type t) previous
           (case t_contains t of None \<Rightarrow> [] | Some c \<Rightarrow> c) revision = Some (Inr ds)"
    and rest: "getDependencies_reduce n types revision
                 (previous @ filter (\<lambda>d. d \<notin> set previous) ds) ts = Some (Inr r')"
    by (auto split: option.splits sum.splits)
  have "distinct ds" using 4(1)[OF ds 4(4)] .
  then have "distinct (previous @ filter (\<lambda>d. d \<notin> set previous) ds)"
    using 4(4) by auto
  from 4(2)[OF ds refl rest this] show ?case .
qed

lemma getDependencies_head:
  assumes "getDependencies n types type [] contains revision = Some (Inr r)"
  shows "case types (normalizeType type contains revision) of
           None \<Rightarrow> r = []
         | Some fs \<Rightarrow> r \<noteq> [] \<and> hd r = normalizeType type contains revision"
proof -
  from assms obtain k where n: "n = Suc k" by (cases n) auto
  show ?thesis
    using assms unfolding n
    by (cases "lookupType types (normalizeType type contains revision)")
       (auto simp: lookupType_Undeclared lookupType_Inherited split: option.splits sum.splits)
qed

lemma getDependencies_declared:
  assumes "getDependencies n types type [] contains revision = Some (Inr ds)" and "d \<in> set ds"
  shows "types d \<noteq> None"
proof -
  from getDependencies_reach(1)[OF assms] obtain m where "resolves m types revision d"
    by auto
  then show ?thesis by (auto simp: resolves_def split: option.splits)
qed

text \<open>
  C3, as stated, fails: for a name that the universe does not declare the returned
  list is empty, and for an array type its first element is the element type.
\<close>

theorem getDependencies_queried_type_not_first:
  "getDependencies 1 Map.empty ''felt'' [] [] LEGACY = Some (Inr []) \<and>
   getDependencies 2 sampleTypes ''C*'' [] [] ACTIVE = Some (Inr [''C''])"
  by code_simp

text \<open>
  C3, amended: whenever \<open>getDependencies\<close>, called with an empty accumulator, returns,
  the returned list has no duplicate names; it is empty when the universe does not
  declare the looked-up name (the queried name without its array marker and, for the
  active revision, with \<open>enum\<close> replaced and parentheses removed), and otherwise the
  looked-up name is its first element.
\<close>

theorem getDependencies_distinct_head:
  assumes "getDependencies n types type [] contains revision = Some (Inr r)"
  shows "distinct r \<and>
         (case types (normalizeType type contains revision) of
            None \<Rightarrow> r = []
          | Some fs \<Rightarrow> r \<noteq> [] \<and> hd r = normalizeType type contains revision)"
  using getDependencies_no_duplicates(1)[OF assms] getDependencies_head[OF assms]
  by simp

theorem getDependencies_distinct_head_witness:
  "getDependencies 4 sampleTypes ''A'' [] [] LEGACY = Some (Inr [''A'', ''B'', ''C'']) \<and>
   distinct [''A'', ''B'', ''C''] \<and> normalizeType ''A'' [] LEGACY = ''A'' \<and>
   sampleTypes ''A'' \<noteq> None"
proof -
  have r: "getDependencies 4 sampleTypes ''A'' [] [] LEGACY = Some (Inr [''A'', ''B'', ''C''])"
    by code_simp
  have "normalizeType ''A'' [] LEGACY = ''A''" "sampleTypes ''A'' \<noteq> None"
    by code_simp+
  with getDependencies_distinct_head[OF r] r show ?thesis by simp
qed

text \<open>
  C10: for a type string that ends in the array marker, \<open>getDependencies\<close> looks up
  the string without the marker, whatever the \<open>contains\<close> reference and the revision
  are: no \<open>enum\<close> substitution and no removal of parentheses takes place.
\<close>

theorem getDependencies_array_marker:
  "getDependencies (Suc n) types (type @ ''*'') dependencies contains revision =
     (if type \<in> set dependencies then Some (Inr dependencies)
      else (case lookupType types type of
              Undeclared \<Rightarrow> Some (Inr dependencies)
            | Inherited \<Rightarrow> Some (Inl TypeError)
            | Declared fs \<Rightarrow>
                (case getDependencies_reduce n types revision [] fs of
                   None \<Rightarrow> None
                 | Some (Inl e) \<Rightarrow> Some (Inl e)
                 | Some (Inr r) \<Rightarrow> Some (Inr (type # r)))))"
proof -
  have nt: "normalizeType (type @ ''*'') contains revision = type"
    by (simp add: normalizeType_def endsWithStar_def)
  show ?thesis
    by (cases "lookupType types type")
       (simp_all add: nt del: lookupType_Declared split: option.split sum.split)
qed

theorem getDependencies_array_marker_witness:
  "getDependencies 2 sampleTypes ''enum*'' [] ''X'' ACTIVE = Some (Inr [''enum'']) \<and>
   getDependencies 2 sampleTypes ''enum'' [] ''X'' ACTIVE = Some (Inr [''X''])"
proof -
  have "getDependencies_reduce 1 sampleTypes ACTIVE [] [] = Some (Inr [])" by simp
  moreover have "lookupType sampleTypes ''enum'' = Declared []" by code_simp
  moreover have "getDependencies 2 sampleTypes ''enum'' [] ''X'' ACTIVE = Some (Inr [''X''])"
    by code_simp
  ultimately show ?thesis
    using getDependencies_array_marker[of 1 sampleTypes "''enum''" "[]" "''X''" ACTIVE]
    by (simp add: numeral_2_eq_2 del: lookupType_Declared)
qed

subsection \<open>The type string\<close>

lemma join_empty_separator: "join [] xs = concat xs"
  by (induction "[] :: string" xs rule: join.induct) simp_all

lemma mapME_total: "(\<And>x. x \<in> set xs \<Longrightarrow> f x = Inr (g x)) \<Longrightarrow> mapME f xs = Inr (map g xs)"
  by (induction xs) simp_all

lemma encodeTypeField_spec:
  "\<not> (revision = ACTIVE \<and> t_type t = ''enum'') \<or> t_contains t \<noteq> None \<Longrightarrow>
   encodeTypeField revision esc t = Inr (spec_fieldString revision esc t)"
  by (auto simp: encodeTypeField_def spec_fieldString_def spec_typeString_def
        intro!: arg_cong[where f="join '',''"])

lemma encodeTypeBlock_spec:
  assumes "universe d = Some fs"
    and "list_all (\<lambda>t. \<not> (revision = ACTIVE \<and> t_type t = ''enum'') \<or> t_contains t \<noteq> None) fs"
  shows "encodeTypeBlock universe revision esc d = Inr (spec_typeBlock universe revision esc d)"
proof -
  have "mapME (encodeTypeField revision esc) fs = Inr (map (spec_fieldString revision esc) fs)"
    using assms(2) by (intro mapME_total encodeTypeField_spec) (auto simp: list_all_iff)
  with assms(1) show ?thesis by (simp add: encodeTypeBlock_def spec_typeBlock_def)
qed

text \<open>
  C4, as stated, fails: an \<open>enum\<close> field of the active revision is rendered by its
  \<open>contains\<close> reference, which is the name of the type that holds the variants, not
  by a tuple type string.  Below, the field \<open>e\<close> reads \<open>"e":"E"\<close>, while the tuple type
  strings of the variants of \<open>E\<close> are \<open>()\<close> and \<open>(u128,felt*)\<close>.
\<close>

theorem encodeType_enum_field:
  "encodeType 3 symbolic enumTypes ''T'' ACTIVE =
     Some (Inr (quoted ''T'' @ ''('' @ quoted ''e'' @ '':'' @ quoted ''E'' @ '')'' @
                quoted ''E'' @ ''('' @ quoted ''A'' @ '':(),'' @
                quoted ''B'' @ '':('' @ quoted ''u128'' @ '','' @ quoted ''felt*'' @ ''))'')) \<and>
   enumTypes ''T'' = Some [\<lparr>t_name = ''e'', t_type = ''enum'', t_contains = Some ''E''\<rparr>] \<and>
   enumTypes ''E'' = Some [\<lparr>t_name = ''A'', t_type = ''()'', t_contains = None\<rparr>,
                          \<lparr>t_name = ''B'', t_type = ''(u128,felt*)'', t_contains = None\<rparr>]"
  by code_simp

text \<open>
  C4, amended: whenever the dependency resolution over the universe (the declared
  types, extended by the preset types for the active revision) returns a list with a
  non-empty first name, and every \<open>enum\<close> field of the resolved types carries a
  \<open>contains\<close> reference for the active revision, \<open>encodeType\<close> emits the block of the
  primary type (the looked-up name) and then the blocks of the other dependencies in
  sorted order, with nothing between them; each block is the escaped name and the
  comma-separated fields \<open>name:type\<close> between parentheses; every identifier and every
  type string that is not parenthesised is escaped (between double quotes for the
  active revision, unchanged for the legacy one); an \<open>enum\<close> field of the active
  revision is rendered by its \<open>contains\<close> reference; a parenthesised type string has
  each non-empty element escaped on its own and its empty elements kept.  When the
  looked-up name is neither declared in the universe nor the name of a member that
  the universe inherits, the result is the empty string.
\<close>

theorem encodeType_blocks:
  assumes "universe = (if revision = ACTIVE then types ++ presetTypes else types)"
    and "esc = (case revision of ACTIVE \<Rightarrow> (\<lambda>s. [CHR 0x22] @ s @ [CHR 0x22]) | LEGACY \<Rightarrow> (\<lambda>s. s))"
  shows "(lookupType universe (normalizeType type [] revision) = Undeclared \<longrightarrow>
            encodeType (Suc n) env types type revision = Some (Inr [])) \<and>
         (getDependencies n universe type [] [] revision = Some (Inr (primary # dependencies)) \<and>
          enumFieldsContain universe revision (primary # dependencies) \<and> primary \<noteq> [] \<longrightarrow>
            primary = normalizeType type [] revision \<and>
            encodeType n env types type revision =
              Some (Inr (spec_encodeType universe revision esc primary dependencies)))"
proof (intro conjI impI)
  have u: "(if revision = ACTIVE
            then types ++ cfg_presetTypes (revisionConfiguration env revision) else types) = universe"
    using assms(1) by (cases revision) simp_all
  have e: "escapeTypeString (revisionConfiguration env revision) = esc"
    using assms(2) by (cases revision) simp_all
  {
    assume "lookupType universe (normalizeType type [] revision) = Undeclared"
    then show "encodeType (Suc n) env types type revision = Some (Inr [])"
      by (simp add: encodeType_def u liftR_def)
  }
  assume a: "getDependencies n universe type [] [] revision = Some (Inr (primary # dependencies)) \<and>
          enumFieldsContain universe revision (primary # dependencies) \<and> primary \<noteq> []"
  then have gd: "getDependencies n universe type [] [] revision = Some (Inr (primary # dependencies))"
    and ok: "enumFieldsContain universe revision (primary # dependencies)"
    and ne: "primary \<noteq> []"
    by simp_all
  from getDependencies_head[OF gd]
  show "primary = normalizeType type [] revision"
    by (auto split: option.splits)
  have blocks: "mapME (encodeTypeBlock universe revision esc) (primary # sort dependencies) =
          Inr (map (spec_typeBlock universe revision esc) (primary # sort dependencies))"
  proof (rule mapME_total)
    fix d assume "d \<in> set (primary # sort dependencies)"
    then have d: "d \<in> set (primary # dependencies)" by simp
    from getDependencies_declared[OF gd d] obtain fs where fs: "universe d = Some fs" by auto
    from ok d fs have
      "list_all (\<lambda>t. \<not> (revision = ACTIVE \<and> t_type t = ''enum'') \<or> t_contains t \<noteq> None) fs"
      unfolding enumFieldsContain_def list_all_iff by force
    from encodeTypeBlock_spec[of universe d fs revision esc, OF fs this]
    show "encodeTypeBlock universe revision esc d = Inr (spec_typeBlock universe revision esc d)" .
  qed
  show "encodeType n env types type revision =
          Some (Inr (spec_encodeType universe revision esc primary dependencies))"
    unfolding encodeType_def Let_def u e gd
    using blocks ne
    by (simp add: liftR_def spec_encodeType_def join_empty_separator del: mapME.simps)
qed

theorem encodeType_blocks_witness:
  "encodeType 3 symbolic sampleTypes ''A'' LEGACY = Some (Inr ''A(x:B*,y:C,z:B)B(w:C,v:felt)C()'') \<and>
   encodeType (Suc 0) symbolic sampleTypes ''felt'' LEGACY = Some (Inr [])"
proof -
  have g: "getDependencies 3 sampleTypes ''A'' [] [] LEGACY = Some (Inr (''A'' # [''B'', ''C'']))"
    by code_simp
  have ok: "enumFieldsContain sampleTypes LEGACY (''A'' # [''B'', ''C''])" by code_simp
  have sp: "spec_encodeType sampleTypes LEGACY (\<lambda>s. s) ''A'' [''B'', ''C''] =
              ''A(x:B*,y:C,z:B)B(w:C,v:felt)C()''"
    by code_simp
  have nf: "lookupType sampleTypes (normalizeType ''felt'' [] LEGACY) = Undeclared" by code_simp
  note t1 = encodeType_blocks[OF refl refl,
      where revision = LEGACY and types = sampleTypes and type = "''A''" and n = 3
        and env = symbolic and primary = "''A''" and dependencies = "[''B'', ''C'']"]
  note t2 = encodeType_blocks[OF refl refl,
      where revision = LEGACY and types = sampleTypes and type = "''felt''" and n = 0
        and env = symbolic]
  from t1 t2 g ok sp nf show ?thesis by simp
qed

subsection \<open>Revision detection\<close>

text \<open>
  C2, as stated, fails: a \<open>revision\<close> property that is present with the value \<open>null\<close>
  is neither absent nor the legacy member of the enumeration, yet \<open>??\<close> replaces it by
  the legacy member and the legacy revision is returned.
\<close>

theorem identifyRevision_null_revision:
  "identifyRevision symbolic nullRevisionDocument = Inr (Some LEGACY) \<and>
   getProp symbolic (td_domain nullRevisionDocument) ''revision'' = Inr JNull \<and>
   revisionValue symbolic LEGACY = JStr ''0''"
  by code_simp

text \<open>
  C2, amended: for a document with a types map and a domain object, whose \<open>revision\<close>
  property reads as \<open>r\<close>: the active revision is returned exactly when the types map
  declares \<open>StarknetDomain\<close> and \<open>r\<close> is strictly equal to the active member of the
  enumeration; the legacy revision is returned exactly when that rule does not apply,
  the types map declares \<open>StarkNetDomain\<close>, and \<open>r\<close> is absent (it reads as
  \<open>undefined\<close>), is \<open>null\<close>, or is strictly equal to the legacy member; in every other
  case no revision is returned.
\<close>

theorem identifyRevision_rules:
  assumes "td_types td = Some types" and "td_domain td = JObj kvs"
    and "r = (case map_of kvs ''revision'' of None \<Rightarrow> JUndefined | Some x \<Rightarrow> x)"
  shows "(identifyRevision env td = Inr (Some ACTIVE) \<longleftrightarrow>
            types ''StarknetDomain'' \<noteq> None \<and> strictEq r (revisionValue env ACTIVE)) \<and>
         (identifyRevision env td = Inr (Some LEGACY) \<longleftrightarrow>
            \<not> (types ''StarknetDomain'' \<noteq> None \<and> strictEq r (revisionValue env ACTIVE)) \<and>
            types ''StarkNetDomain'' \<noteq> None \<and>
            (r = JUndefined \<or> r = JNull \<or> strictEq r (revisionValue env LEGACY))) \<and>
         (identifyRevision env td = Inr None \<longleftrightarrow>
            \<not> (types ''StarknetDomain'' \<noteq> None \<and> strictEq r (revisionValue env ACTIVE)) \<and>
            \<not> (types ''StarkNetDomain'' \<noteq> None \<and>
               (r = JUndefined \<or> r = JNull \<or> strictEq r (revisionValue env LEGACY))))"
  using assms by (auto simp: identifyRevision_def objectPrototypeNames_def)

theorem identifyRevision_rules_witness:
  "identifyRevision symbolic enumDocument = Inr (Some ACTIVE) \<and>
   identifyRevision symbolic mailDocument = Inr (Some LEGACY) \<and>
   identifyRevision symbolic nullRevisionDocument = Inr (Some LEGACY)"
proof -
  have a: "td_types enumDocument = Some enumTypes"
    and b: "td_domain enumDocument = JObj [(''name'', JStr ''1''), (''revision'', JStr ''1'')]"
    by (simp_all add: enumDocument_def)
  have c: "enumTypes ''StarknetDomain'' \<noteq> None \<and>
           strictEq (case map_of [(''name'', JStr ''1''), (''revision'', JStr ''1'')] ''revision'' of
                       None \<Rightarrow> JUndefined | Some x \<Rightarrow> x)
             (revisionValue symbolic ACTIVE)"
    by code_simp
  have a': "td_types mailDocument = Some mailTypes"
    and b': "td_domain mailDocument = JObj [(''name'', JStr ''1''), (''version'', JStr ''1'')]"
    by (simp_all add: mailDocument_def)
  have c': "mailTypes ''StarknetDomain'' = None \<and> mailTypes ''StarkNetDomain'' \<noteq> None \<and>
            (case map_of [(''name'', JStr ''1''), (''version'', JStr ''1'')] ''revision'' of
               None \<Rightarrow> JUndefined | Some x \<Rightarrow> x) = JUndefined"
    by code_simp
  have a'': "td_types nullRevisionDocument = Some mailTypes"
    and b'': "td_domain nullRevisionDocument =
               JObj [(''name'', JStr ''1''), (''version'', JStr ''1''), (''revision'', JNull)]"
    by (simp_all add: nullRevisionDocument_def)
  have c'': "(case map_of [(''name'', JStr ''1''), (''version'', JStr ''1''), (''revision'', JNull)]
                     ''revision'' of
                None \<Rightarrow> JUndefined | Some x \<Rightarrow> x) = JNull"
    by code_simp
  from identifyRevision_rules[OF a b refl, of symbolic] c
       identifyRevision_rules[OF a' b' refl, of symbolic] c'
       identifyRevision_rules[OF a'' b'' refl, of symbolic] c' c''
  show ?thesis by simp
qed

subsection \<open>The schema-mismatch error\<close>

lemma noSchemaE_basic [simp]:
  "noSchemaE (Inr v)"
  "noSchemaE (Inl e) \<longleftrightarrow> e \<noteq> SchemaMismatch"
  "noSchemaE (ext x)"
  by (auto simp: noSchemaE_def ext_def split: option.splits)

lemma noSchemaE_bindE: "noSchemaE m \<Longrightarrow> (\<And>v. noSchemaE (f v)) \<Longrightarrow> noSchemaE (bindE m f)"
  by (cases m) (auto simp: noSchemaE_def)

lemma noSchema_basic [simp]:
  "noSchema None"
  "noSchema (returnR v)"
  "noSchema (throwR e) \<longleftrightarrow> e \<noteq> SchemaMismatch"
  "noSchema (liftR m) \<longleftrightarrow> noSchemaE m"
  "noSchema (Some m) \<longleftrightarrow> noSchemaE m"
  by (auto simp: noSchema_def noSchemaE_def returnR_def throwR_def liftR_def)

lemma noSchema_bindR: "noSchema m \<Longrightarrow> (\<And>v. noSchema (f v)) \<Longrightarrow> noSchema (bindR m f)"
  by (auto simp: noSchema_def bindR_def split: option.splits sum.splits)

lemma noSchemaE_mapME: "(\<And>x. noSchemaE (f x)) \<Longrightarrow> noSchemaE (mapME f xs)"
  by (induction xs) (auto intro!: noSchemaE_bindE)

lemma noSchema_mapMR: "(\<And>x. noSchema (f x)) \<Longrightarrow> noSchema (mapMR f xs)"
  by (induction xs) (auto intro!: noSchema_bindR)

lemma noSchemaE_inheritedMember [simp]: "noSchemaE (inheritedMember env v k)"
  by (simp add: inheritedMember_def split: option.split)

lemma noSchemaE_getProp [simp]: "noSchemaE (getProp env v k)"
  by (cases v) (simp_all split: option.split)

lemma noSchemaE_getIndex [simp]: "noSchemaE (getIndex env v i)"
  by (cases v) simp_all

lemma noSchemaE_objectEntries [simp]: "noSchemaE (objectEntries v)"
  by (cases v) simp_all

lemma noSchemaE_jsBigInt [simp]: "noSchemaE (jsBigInt env v)"
  by (cases v) (auto split: option.splits)

lemma noSchemaE_assertRange [simp]: "noSchemaE (assertRange env v type bounds)"
  by (auto simp: assertRange_def intro!: noSchemaE_bindE)

lemma noSchemaE_getHex [simp]: "noSchemaE (getHex env v)"
  by (cases v) (auto simp: getHex_def intro!: noSchemaE_bindE split: option.splits)

lemma noSchemaE_prepareSelector [simp]: "noSchemaE (prepareSelector env v)"
  by (auto simp: prepareSelector_def intro!: noSchemaE_bindE)

lemma noSchemaE_if: "noSchemaE a \<Longrightarrow> noSchemaE b \<Longrightarrow> noSchemaE (if c then a else b)"
  by simp

lemma noSchema_if: "noSchema a \<Longrightarrow> noSchema b \<Longrightarrow> noSchema (if c then a else b)"
  by simp

lemma noSchema_case_JArr:
  "(\<And>xs. noSchema (f xs)) \<Longrightarrow> noSchema g \<Longrightarrow> noSchema (case v of JArr xs \<Rightarrow> f xs | _ \<Rightarrow> g)"
  by (cases v) simp_all

lemma noSchemaE_case_JBool:
  "(\<And>b. noSchemaE (f b)) \<Longrightarrow> noSchemaE g \<Longrightarrow> noSchemaE (case v of JBool b \<Rightarrow> f b | _ \<Rightarrow> g)"
  by (cases v) simp_all

lemma noSchemaE_encodeScalar [simp]: "noSchemaE (encodeScalar env type v revision)"
  unfolding encodeScalar_def
  by (intro noSchemaE_if noSchemaE_bindE noSchemaE_case_JBool; simp)

lemma noSchemaE_enumVariant [simp]: "noSchemaE (enumVariant types ctx v)"
proof -
  have "noSchemaE (case entries of
            [] \<Rightarrow> Inl TypeError
          | (variantKey, variantData) # _ \<Rightarrow>
              (case types (case parent ctx of None \<Rightarrow> ''undefined'' | Some p \<Rightarrow> p) of
                 None \<Rightarrow> Inl TypeError
               | Some [] \<Rightarrow> Inl TypeError
               | Some (parentType # _) \<Rightarrow>
                   (case types (case t_contains parentType of
                                  None \<Rightarrow> ''undefined'' | Some c \<Rightarrow> c) of
                      None \<Rightarrow> Inl TypeError
                    | Some enumType \<Rightarrow>
                        (case find (\<lambda>t. t_name t = variantKey) enumType of
                           None \<Rightarrow> Inl TypeError
                         | Some variantType \<Rightarrow>
                             Inr (length (takeWhile (\<lambda>t. t_name t \<noteq> variantKey) enumType),
                                  variantType, variantData)))))" for entries
    by (simp split: list.split option.split prod.split)
  then show ?thesis
    unfolding enumVariant_def by (intro noSchemaE_bindE) simp_all
qed

lemma noSchemaE_getMerkleTreeType [simp]: "noSchemaE (getMerkleTreeType types ctx)"
  unfolding getMerkleTreeType_def
  by (simp split: option.split prod.split)

lemma noSchemaE_encodeTypeField [simp]: "noSchemaE (encodeTypeField revision esc t)"
  unfolding encodeTypeField_def
  by (simp split: option.split)

lemma noSchemaE_encodeTypeBlock [simp]: "noSchemaE (encodeTypeBlock allTypes revision esc d)"
  unfolding encodeTypeBlock_def
  by (auto intro!: noSchemaE_bindE noSchemaE_mapME split: option.splits)

lemma noSchema_getDependencies:
  "noSchema (getDependencies n types type dependencies contains revision)"
  "noSchema (getDependencies_reduce n types revision previous fs)"
proof (induction n types type dependencies contains revision and n types revision previous fs
       rule: getDependencies_getDependencies_reduce.induct)
  case (1 types type dependencies contains revision)
  show ?case by simp
next
  case (2 n types type dependencies contains revision)
  then show ?case
    by (cases "lookupType types (normalizeType type contains revision)")
       (auto simp: noSchema_def simp del: lookupType_Declared split: option.splits sum.splits)
next
  case (3 n types revision previous)
  show ?case by simp
next
  case (4 n types revision previous t ts)
  then show ?case
    by (auto simp: noSchema_def split: option.splits sum.splits)
qed

lemma noSchema_encodeType [simp]: "noSchema (encodeType n env types type revision)"
proof -
  have "noSchema (getDependencies n universe type [] [] revision)" for universe
    by (rule noSchema_getDependencies)
  then show ?thesis
    unfolding encodeType_def Let_def
    by (auto simp: noSchema_def[of "getDependencies _ _ _ _ _ _"]
          intro!: noSchemaE_bindE noSchemaE_mapME split: option.splits sum.splits)
qed

lemma noSchema_getTypeHash [simp]: "noSchema (getTypeHash n env types type revision)"
  unfolding getTypeHash_def
  by (auto intro!: noSchema_bindR)

lemma noSchema_encodeValue_subtypes:
  "(\<And>t ty x c r. noSchema (enc t ty x c r)) \<Longrightarrow>
   noSchema (encodeValue_subtypes enc env types variantData index subtypes revision)"
  by (induction subtypes arbitrary: index) (auto intro!: noSchema_bindR)

lemma noSchema_encodeData_reduce:
  "(\<And>t ty x c r. noSchema (enc t ty x c r)) \<Longrightarrow>
   noSchema (encodeData_reduce enc env types type v revision acc fs)"
  by (induction fs arbitrary: acc) (auto intro!: noSchema_bindR)

lemma noSchema_encodeData_body:
  "(\<And>t ty x c r. noSchema (enc t ty x c r)) \<Longrightarrow>
   noSchema (encodeData_body enc n env types type v revision)"
  unfolding encodeData_body_def
  by (auto intro!: noSchema_bindR noSchema_encodeData_reduce simp del: lookupType_Declared
        split: lookup.splits)

lemma noSchema_getStructHash_body:
  "(\<And>t ty x c r. noSchema (enc t ty x c r)) \<Longrightarrow>
   noSchema (getStructHash_body enc n env types type v revision)"
  unfolding getStructHash_body_def
  by (auto intro!: noSchema_bindR noSchema_encodeData_body noSchemaE_bindE)

lemma noSchema_encodeValue_body:
  assumes "\<And>t ty x c r. noSchema (enc t ty x c r)"
  shows "noSchema (encodeValue_body enc n env types type v ctx revision)"
  unfolding encodeValue_body_def
  by (intro noSchema_if noSchema_bindR noSchema_case_JArr noSchema_getStructHash_body
        noSchema_mapMR noSchema_encodeValue_subtypes assms; simp add: noSchemaE_bindE)

lemma noSchema_encodeValue: "noSchema (encodeValue n env types type v ctx revision)"
  by (induction n arbitrary: types type v ctx revision) (auto intro!: noSchema_encodeValue_body)

lemma noSchema_getStructHash: "noSchema (getStructHash n env types type v revision)"
  unfolding getStructHash_def by (intro noSchema_getStructHash_body noSchema_encodeValue)

lemma noSchemaE_identifyRevision: "noSchemaE (identifyRevision env td)"
  unfolding identifyRevision_def
  by (auto intro!: noSchemaE_bindE split: option.splits)

lemma noSchemaE_validateTypedData: "noSchemaE (validateTypedData env td)"
  unfolding validateTypedData_def
  by (auto intro!: noSchemaE_bindE noSchemaE_identifyRevision)

text \<open>
  C5, as stated, fails: validation tests \<open>message\<close> for truthiness, not for emptiness.
  A document whose message is the empty object passes validation and is hashed.
\<close>

theorem getMessageHash_empty_message:
  "td_message pingDocument = JObj [] \<and>
   validateTypedData symbolic pingDocument = Inr True \<and>
   getMessageHash 3 symbolic pingDocument (JStr ''0x7'') =
     Some (Inr ''pedersen(0x537461726b4e6574204d657373616765,pedersen(sn_keccak(StarkNetDomain())),0x7,pedersen(sn_keccak(Ping())))'')"
  by code_simp

text \<open>
  C5, amended: when the members of the revision enumeration are truthy values,
  \<open>getMessageHash\<close> fails with the schema-mismatch error exactly when
  \<open>validateTypedData\<close> returns false; it returns false exactly when \<open>message\<close> is falsy
  (an empty object is truthy), \<open>primaryType\<close> is the empty string, \<open>types\<close> is missing,
  or no revision resolves; in particular a document whose types map declares neither
  \<open>StarknetDomain\<close> nor \<open>StarkNetDomain\<close> fails with the schema-mismatch error.
\<close>

theorem getMessageHash_schema_mismatch:
  assumes "truthy (revisionValue env ACTIVE)" and "truthy (revisionValue env LEGACY)"
  shows "(getMessageHash n env td account = Some (Inl SchemaMismatch) \<longleftrightarrow>
            validateTypedData env td = Inr False) \<and>
         (validateTypedData env td = Inr False \<longleftrightarrow>
            \<not> truthy (td_message td) \<or> td_primaryType td = [] \<or> td_types td = None \<or>
            identifyRevision env td = Inr None) \<and>
         (td_types td = Some types \<and> types ''StarknetDomain'' = None \<and>
          types ''StarkNetDomain'' = None \<longrightarrow>
            getMessageHash n env td account = Some (Inl SchemaMismatch))"
proof -
  have tr: "truthy (revisionValue env r)" for r using assms by (cases r) auto
  have v: "validateTypedData env td = Inr False \<longleftrightarrow>
            \<not> truthy (td_message td) \<or> td_primaryType td = [] \<or> td_types td = None \<or>
            identifyRevision env td = Inr None"
    by (cases "identifyRevision env td")
       (auto simp: validateTypedData_def tr split: option.splits)
  have fwd: "validateTypedData env td = Inr False \<Longrightarrow>
             getMessageHash n env td account = Some (Inl SchemaMismatch)"
    by (simp add: getMessageHash_def throwR_def)
  have bwd: "validateTypedData env td = Inr False"
    if sm: "getMessageHash n env td account = Some (Inl SchemaMismatch)"
  proof (cases "validateTypedData env td")
    case (Inl e)
    with noSchemaE_validateTypedData[of env td] have "e \<noteq> SchemaMismatch" by simp
    with Inl sm show ?thesis by (simp add: getMessageHash_def throwR_def)
  next
    case (Inr b)
    show ?thesis
    proof (cases b)
      case False
      with Inr show ?thesis by simp
    next
      case True
      have "noSchema (getMessageHash n env td account)"
        using Inr True noSchemaE_identifyRevision[of env td]
        unfolding getMessageHash_def
        by (auto intro!: noSchema_bindR noSchema_getStructHash
              split: sum.splits option.splits prod.splits)
      with sm show ?thesis by (simp add: noSchema_def)
    qed
  qed
  have neither: "getMessageHash n env td account = Some (Inl SchemaMismatch)"
    if "td_types td = Some types" "types ''StarknetDomain'' = None"
       "types ''StarkNetDomain'' = None"
  proof -
    have "identifyRevision env td = Inr None"
      using that by (simp add: identifyRevision_def)
    with v fwd show ?thesis by blast
  qed
  from v fwd bwd neither show ?thesis by blast
qed

theorem getMessageHash_schema_mismatch_witness:
  "getMessageHash 3 symbolic
     \<lparr>td_types = Some (map_of [(''Mail'', [])]), td_primaryType = ''Mail'',
      td_domain = JObj [], td_message = JObj [(''x'', JNum 1)]\<rparr> (JStr ''0x7'') =
     Some (Inl SchemaMismatch)"
proof -
  have a: "truthy (revisionValue symbolic ACTIVE)" "truthy (revisionValue symbolic LEGACY)"
    by code_simp+
  have b: "map_of [(''Mail'', [])] ''StarknetDomain'' = (None :: StarknetType list option) \<and>
           map_of [(''Mail'', [])] ''StarkNetDomain'' = (None :: StarknetType list option)"
    by simp
  from getMessageHash_schema_mismatch[OF a, of 3
         "\<lparr>td_types = Some (map_of [(''Mail'', [])]), td_primaryType = ''Mail'',
           td_domain = JObj [], td_message = JObj [(''x'', JNum 1)]\<rparr>"
         "JStr ''0x7''" "map_of [(''Mail'', [])]"] b
  show ?thesis by simp
qed

subsection \<open>The message hash\<close>

text \<open>
  C1: for a document that passes validation, with the revision that
  \<open>identifyRevision\<close> resolves, \<open>getMessageHash\<close> returns the element hash of that
  revision applied to the four elements: the short string \<open>StarkNet Message\<close>, the
  struct hash of the domain under the domain-type name of the revision, the account,
  and the struct hash of the message under the primary type.
\<close>

theorem getMessageHash_digest:
  assumes "validateTypedData env td = Inr True"
    and "identifyRevision env td = Inr (Some revision)"
    and "td_types td = Some types"
    and "encodeShortString env ''StarkNet Message'' = Some prefix"
    and "getStructHash n env types (cfg_domain (revisionConfiguration env revision))
           (td_domain td) revision = Some (Inr domainHash)"
    and "getStructHash n env types (td_primaryType td) (td_message td) revision =
           Some (Inr messageHash)"
  shows "getMessageHash n env td account =
           Some (ext (hashMethod (revisionConfiguration env revision)
                        [JStr prefix, domainHash, account, messageHash]))"
  using assms by (simp add: getMessageHash_def liftR_def)

theorem getMessageHash_digest_witness:
  "getMessageHash 3 symbolic mailDocument (JStr ''0x7'') =
     Some (Inr ''pedersen(0x537461726b4e6574204d657373616765,pedersen(sn_keccak(StarkNetDomain(name:felt,version:felt)),0x1,0x1),0x7,pedersen(sn_keccak(Mail(from:felt,amount:u128)),0x7,0x5))'')"
proof -
  have v: "validateTypedData symbolic mailDocument = Inr True" by code_simp
  have r: "identifyRevision symbolic mailDocument = Inr (Some LEGACY)" by code_simp
  have t: "td_types mailDocument = Some mailTypes" by (simp add: mailDocument_def)
  have p: "encodeShortString symbolic ''StarkNet Message'' =
             Some ''0x537461726b4e6574204d657373616765''"
    by code_simp
  have d: "getStructHash 3 symbolic mailTypes (cfg_domain (revisionConfiguration symbolic LEGACY))
             (td_domain mailDocument) LEGACY =
           Some (Inr (JStr ''pedersen(sn_keccak(StarkNetDomain(name:felt,version:felt)),0x1,0x1)''))"
    by code_simp
  have m: "getStructHash 3 symbolic mailTypes (td_primaryType mailDocument)
             (td_message mailDocument) LEGACY =
           Some (Inr (JStr ''pedersen(sn_keccak(Mail(from:felt,amount:u128)),0x7,0x5)''))"
    by code_simp
  have h: "ext (hashMethod (revisionConfiguration symbolic LEGACY)
             [JStr ''0x537461726b4e6574204d657373616765'',
              JStr ''pedersen(sn_keccak(StarkNetDomain(name:felt,version:felt)),0x1,0x1)'',
              JStr ''0x7'',
              JStr ''pedersen(sn_keccak(Mail(from:felt,amount:u128)),0x7,0x5)'']) =
           Inr ''pedersen(0x537461726b4e6574204d657373616765,pedersen(sn_keccak(StarkNetDomain(name:felt,version:felt)),0x1,0x1),0x7,pedersen(sn_keccak(Mail(from:felt,amount:u128)),0x7,0x5))''"
    by code_simp
  from getMessageHash_digest[OF v r t p d m, of "JStr ''0x7''"] h show ?thesis by simp
qed

subsection \<open>Missing fields\<close>

lemma bindR_assoc: "bindR (bindR m f) g = bindR m (\<lambda>x. bindR (f x) g)"
  by (auto simp: bindR_def split: option.splits sum.splits)

lemma bindR_eq_Some_Inr:
  "bindR m f = Some (Inr r) \<Longrightarrow> \<exists>q. m = Some (Inr q) \<and> f q = Some (Inr r)"
  by (auto simp: bindR_def split: option.splits sum.splits)

lemma encodeData_reduce_append:
  "encodeData_reduce enc env types type v revision acc (pre @ post) =
     bindR (encodeData_reduce enc env types type v revision acc pre)
       (\<lambda>acc'. encodeData_reduce enc env types type v revision acc' post)"
proof (induction pre arbitrary: acc)
  case Nil
  show ?case by simp
next
  case (Cons f pre)
  show ?case
    by (simp add: bindR_assoc Cons.IH if_distrib[of "\<lambda>m. bindR m g" for g] cong: if_cong)
qed

lemma encodeData_reduce_success:
  "encodeData_reduce enc env types type v revision acc fs = Some (Inr r) \<Longrightarrow>
   field \<in> set fs \<Longrightarrow> getProp env v (t_name field) = Inr x \<Longrightarrow> \<not> missingData x field"
proof (induction fs arbitrary: acc)
  case Nil
  then show ?case by simp
next
  case (Cons f fs)
  show ?case
  proof (cases "field = f")
    case True
    with Cons.prems show ?thesis
      by (auto simp: missingData_def throwR_def split: if_splits)
  next
    case False
    from Cons.prems(1) obtain y where y: "getProp env v (t_name f) = Inr y"
      by (cases "getProp env v (t_name f)") (auto simp: liftR_def)
    from Cons.prems(1) y have nm: "\<not> (y = JUndefined \<or> (y = JNull \<and> t_type f \<noteq> ''enum''))"
      by (auto simp: throwR_def split: if_splits)
    from Cons.prems(1) y nm have
      "bindR (enc types (t_type f) y \<lparr>parent = Some type, key = Some (t_name f)\<rparr> revision)
         (\<lambda>q. encodeData_reduce enc env types type v revision
                (fst acc @ [fst q], snd acc @ [snd q]) fs) = Some (Inr r)"
      by simp
    from bindR_eq_Some_Inr[OF this] obtain q where
      "encodeData_reduce enc env types type v revision (fst acc @ [fst q], snd acc @ [snd q]) fs = Some (Inr r)"
      by blast
    from Cons.IH[OF this] False Cons.prems(2,3) show ?thesis by simp
  qed
qed

text \<open>
  The missing-data test: a field that reads as undefined, or as \<open>null\<close> while its type
  is not \<open>enum\<close>, keeps the encoding from succeeding, and raises the missing-field error
  when the type hash is computed and the fields declared before it are encoded.
\<close>

lemma encodeData_missing_data:
  assumes "types type = Some (pre @ field # post)"
    and "getProp env v (t_name field) = Inr x"
    and "missingData x field"
  shows "encodeData n env types type v revision \<noteq> Some (Inr r) \<and>
         (getTypeHash n env types type revision = Some (Inr h) \<and>
          encodeData_reduce (encodeValue n env) env types type v revision
            ([''felt''], [JStr h]) pre = Some (Inr acc) \<longrightarrow>
            encodeData n env types type v revision = Some (Inl (MissingField (t_name field))))"
proof (intro conjI impI)
  show "encodeData n env types type v revision \<noteq> Some (Inr r)"
  proof
    assume ok: "encodeData n env types type v revision = Some (Inr r)"
    then have "bindR (getTypeHash n env types type revision)
            (\<lambda>g. encodeData_reduce (encodeValue n env) env types type v revision
                   ([''felt''], [JStr g]) (pre @ field # post)) = Some (Inr r)"
      using assms(1) by (simp add: encodeData_def encodeData_body_def lookupType_def)
    from bindR_eq_Some_Inr[OF this] obtain g where
      "encodeData_reduce (encodeValue n env) env types type v revision ([''felt''], [JStr g])
         (pre @ field # post) = Some (Inr r)"
      by blast
    from encodeData_reduce_success[OF this _ assms(2)] assms(3) show False by simp
  qed
next
  assume "getTypeHash n env types type revision = Some (Inr h) \<and>
          encodeData_reduce (encodeValue n env) env types type v revision
            ([''felt''], [JStr h]) pre = Some (Inr acc)"
  then show "encodeData n env types type v revision = Some (Inl (MissingField (t_name field)))"
    using assms
    by (simp add: encodeData_def encodeData_body_def lookupType_def encodeData_reduce_append
          missingData_def throwR_def)
qed

text \<open>
  C6: the code does not do what the claim says.  The missing-data test lets an \<open>enum\<close>
  field that reads as \<open>null\<close> pass, but the encoding does not succeed.  When no
  declared type is named \<open>enum\<close>, \<open>encodeValue\<close> on \<open>null\<close> under the tag \<open>enum\<close> fails for
  the active revision with a \<open>TypeError\<close> (the entries of \<open>null\<close> are taken), and for
  the legacy revision with the conversion error whenever \<open>toHex\<close> throws on \<open>null\<close>; so
  \<open>encodeData\<close>, for the active revision, fails with the \<open>TypeError\<close> at such a field
  once the type hash is computed and the fields declared before it are encoded.
\<close>

theorem encodeData_null_enum:
  assumes "types ''enum'' = None"
  shows "encodeValue (Suc n) env types ''enum'' JNull ctx ACTIVE = Some (Inl TypeError) \<and>
         (toHex env JNull = None \<longrightarrow>
            encodeValue (Suc n) env types ''enum'' JNull ctx LEGACY =
              Some (Inl ConversionError)) \<and>
         (types type = Some (pre @ field # post) \<and> t_type field = ''enum'' \<and>
          getProp env v (t_name field) = Inr JNull \<and>
          getTypeHash (Suc n) env types type ACTIVE = Some (Inr h) \<and>
          encodeData_reduce (encodeValue (Suc n) env) env types type v ACTIVE
            ([''felt''], [JStr h]) pre = Some (Inr acc) \<longrightarrow>
            encodeData (Suc n) env types type v ACTIVE = Some (Inl TypeError))"
proof -
  have l: "lookupType types ''enum'' = Undeclared"
    using assms by (simp add: lookupType_def objectPrototypeNames_def)
  have p: "lookupType (cfg_presetTypes (revisionConfiguration env revision)) ''enum'' = Undeclared"
    for revision
    by (cases revision) (simp_all add: lookupType_def objectPrototypeNames_def presetTypes_def)
  have active: "encodeValue (Suc n) env types ''enum'' JNull ctx ACTIVE = Some (Inl TypeError)"
    for ctx
    using l p[of ACTIVE]
    by (simp add: encodeValue_body_def endsWithStar_def enumVariant_def liftR_def)
  have legacy: "encodeValue (Suc n) env types ''enum'' JNull ctx LEGACY =
                  Some (Inl ConversionError)"
    if "toHex env JNull = None"
    using l p[of LEGACY] that
    by (simp add: encodeValue_body_def endsWithStar_def encodeScalar_def getHex_def liftR_def)
  have data: "encodeData (Suc n) env types type v ACTIVE = Some (Inl TypeError)"
    if "types type = Some (pre @ field # post)" "t_type field = ''enum''"
       "getProp env v (t_name field) = Inr JNull"
       "getTypeHash (Suc n) env types type ACTIVE = Some (Inr h)"
       "encodeData_reduce (encodeValue (Suc n) env) env types type v ACTIVE
          ([''felt''], [JStr h]) pre = Some (Inr acc)"
    using that active
    by (simp add: encodeData_def encodeData_body_def lookupType_def encodeData_reduce_append
          del: encodeValue.simps)
  from active legacy data show ?thesis by blast
qed

theorem encodeData_null_enum_witness:
  "encodeData 3 symbolic enumTypes ''T'' (JObj [(''e'', JNull)]) ACTIVE = Some (Inl TypeError) \<and>
   encodeValue 3 symbolic enumTypes ''enum'' JNull \<lparr>parent = Some ''T'', key = Some ''e''\<rparr> LEGACY =
     Some (Inl ConversionError)"
proof -
  let ?e = "\<lparr>t_name = ''e'', t_type = ''enum'', t_contains = Some ''E''\<rparr>"
  let ?v = "JObj [(''e'', JNull)]"
  let ?h = "''sn_keccak('' @ quoted ''T'' @ ''('' @ quoted ''e'' @ '':'' @ quoted ''E'' @ '')'' @
            quoted ''E'' @ ''('' @ quoted ''A'' @ '':(),'' @
            quoted ''B'' @ '':('' @ quoted ''u128'' @ '','' @ quoted ''felt*'' @ ''))'' @ '')''"
  have a: "enumTypes ''enum'' = None" by code_simp
  have b: "enumTypes ''T'' = Some ([] @ ?e # [])" by code_simp
  have c: "t_type ?e = ''enum''" by simp
  have d: "getProp symbolic ?v (t_name ?e) = Inr JNull" by code_simp
  have e: "getTypeHash (Suc 2) symbolic enumTypes ''T'' ACTIVE = Some (Inr ?h)" by code_simp
  have f: "encodeData_reduce (encodeValue (Suc 2) symbolic) symbolic enumTypes ''T'' ?v ACTIVE
             ([''felt''], [JStr ?h]) [] = Some (Inr ([''felt''], [JStr ?h]))"
    by (simp add: returnR_def)
  have g: "toHex symbolic JNull = None" by code_simp
  note th = encodeData_null_enum[where types = enumTypes and n = 2 and env = symbolic
      and ctx = "\<lparr>parent = Some ''T'', key = Some ''e''\<rparr>" and type = "''T''"
      and pre = "[]" and field = ?e and post = "[]" and v = ?v and h = ?h
      and acc = "([''felt''], [JStr ?h])", OF a]
  from th b c d e f g show ?thesis by (simp add: eval_nat_numeral del: encodeValue.simps)
qed

subsection \<open>Encoding values\<close>

text \<open>
  C7: when \<open>i128\<close> is not a declared type, \<open>encodeValue\<close> for the active revision
  converts the value by \<open>BigInt\<close>, fails with the range error unless the integer lies
  between \<open>- 2 ^ 127\<close> and \<open>2 ^ 127 - 1\<close>, and returns the hex conversion of the
  integer, with the field modulus added when it is negative; so the value \<open>- 1\<close> is
  encoded as the scalar of the modulus minus one.
\<close>

theorem encodeValue_i128:
  assumes "types ''i128'' = None"
  shows "encodeValue (Suc n) env types ''i128'' v ctx ACTIVE =
           Some (case jsBigInt env v of
                   Inl e \<Rightarrow> Inl e
                 | Inr val \<Rightarrow>
                     if - (2 ^ 127) \<le> val \<and> val \<le> 2 ^ 127 - 1
                     then bindE (getHex env (JBig (if val < 0 then val + PRIME env else val)))
                            (\<lambda>h. Inr (''i128'', JStr h))
                     else Inl (RangeViolation ''i128'')) \<and>
         encodeValue (Suc n) env types ''i128'' (JBig (- 1)) ctx ACTIVE =
           Some (bindE (getHex env (JBig (PRIME env - 1))) (\<lambda>h. Inr (''i128'', JStr h)))"
  using assms
  by (simp add: encodeValue_body_def lookupType_def objectPrototypeNames_def presetTypes_def
        endsWithStar_def encodeScalar_def assertRange_def RANGE_I128_def liftR_def add.commute
      split: sum.splits)

theorem encodeValue_i128_witness:
  "encodeValue (Suc 0) symbolic mailTypes ''i128'' (JBig (- 1)) \<lparr>parent = None, key = None\<rparr> ACTIVE =
     Some (Inr (''i128'',
                JStr ''0x800000000000011000000000000000000000000000000000000000000000000'')) \<and>
   encodeValue (Suc 0) symbolic mailTypes ''i128'' (JBig (2 ^ 127)) \<lparr>parent = None, key = None\<rparr> ACTIVE =
     Some (Inl (RangeViolation ''i128''))"
proof -
  have a: "mailTypes ''i128'' = None" by code_simp
  have h: "getHex symbolic (JBig (PRIME symbolic - 1)) =
             Inr ''0x800000000000011000000000000000000000000000000000000000000000000''"
    by (simp add: getHex_def symbolic_def symToHex_def hexNat.simps)
  note t1 = encodeValue_i128[where types = mailTypes and n = 0 and env = symbolic
      and v = "JBig (- 1)" and ctx = "\<lparr>parent = None, key = None\<rparr>", OF a]
  note t2 = encodeValue_i128[where types = mailTypes and n = 0 and env = symbolic
      and v = "JBig (2 ^ 127)" and ctx = "\<lparr>parent = None, key = None\<rparr>", OF a]
  from t1 t2 h show ?thesis by simp
qed

text \<open>
  The default case: for a type tag that is neither a declared type, nor a preset
  type, nor the name of an inherited member, that does not end in the array marker
  and is none of the labels of the \<open>switch\<close>, \<open>encodeValue\<close> fails with the
  unsupported-type error for the active revision; for the legacy revision it returns
  the hex conversion of the value: \<open>toHex\<close> of the value, or, when that throws and
  the value is a string, \<open>toHex\<close> of its short-string encoding, and otherwise the
  conversion error; never the unsupported-type error.
\<close>

lemma encodeValue_default_case:
  assumes "types type = None" and "presetTypes type = None"
    and "type \<notin> set objectPrototypeNames" and "\<not> endsWithStar type"
    and "type \<notin> set knownTags"
  shows "encodeValue (Suc n) env types type v ctx ACTIVE = Some (Inl (UnsupportedType type)) \<and>
         encodeValue (Suc n) env types type v ctx LEGACY =
           Some (case toHex env v of
                   Some h \<Rightarrow> Inr (type, JStr h)
                 | None \<Rightarrow>
                     (case v of
                        JStr s \<Rightarrow>
                          (case encodeShortString env s of
                             None \<Rightarrow> Inl ExternalFailure
                           | Some e \<Rightarrow>
                               (case toHex env (JStr e) of
                                  None \<Rightarrow> Inl ExternalFailure
                                | Some h \<Rightarrow> Inr (type, JStr h)))
                      | _ \<Rightarrow> Inl ConversionError)) \<and>
         encodeValue (Suc n) env types type v ctx LEGACY \<noteq> Some (Inl (UnsupportedType t))"
proof -
  have l: "lookupType types type = Undeclared"
    "lookupType (cfg_presetTypes (revisionConfiguration env ACTIVE)) type = Undeclared"
    "lookupType (cfg_presetTypes (revisionConfiguration env LEGACY)) type = Undeclared"
    using assms(1-3) by (simp_all add: lookupType_def)
  have k: "type \<noteq> ''enum''" "type \<noteq> ''merkletree''" "type \<noteq> ''selector''" "type \<noteq> ''string''"
    "type \<noteq> ''i128''" "type \<noteq> ''timestamp''" "type \<noteq> ''u128''" "type \<noteq> ''felt''"
    "type \<noteq> ''shortstring''" "type \<noteq> ''ClassHash''" "type \<noteq> ''ContractAddress''"
    "type \<noteq> ''bool''"
    using assms(5) by (auto simp: knownTags_def)
  have a: "encodeValue (Suc n) env types type v ctx ACTIVE = Some (Inl (UnsupportedType type))"
    using l assms(4) k by (simp add: encodeValue_body_def encodeScalar_def liftR_def)
  have b: "encodeValue (Suc n) env types type v ctx LEGACY =
             Some (bindE (getHex env v) (\<lambda>h. Inr (type, JStr h)))"
    using l assms(4) k by (simp add: encodeValue_body_def encodeScalar_def liftR_def)
  have c: "bindE (getHex env v) (\<lambda>h. Inr (type, JStr h)) =
           (case toHex env v of
                   Some h \<Rightarrow> Inr (type, JStr h)
                 | None \<Rightarrow>
                     (case v of
                        JStr s \<Rightarrow>
                          (case encodeShortString env s of
                             None \<Rightarrow> Inl ExternalFailure
                           | Some e \<Rightarrow>
                               (case toHex env (JStr e) of
                                  None \<Rightarrow> Inl ExternalFailure
                                | Some h \<Rightarrow> Inr (type, JStr h)))
                      | _ \<Rightarrow> Inl ConversionError))"
    by (cases v) (simp_all add: getHex_def split: option.splits)
  have d: "bindE (getHex env v) (\<lambda>h. Inr (type, JStr h)) \<noteq> Inl (UnsupportedType t)"
    unfolding c by (cases v) (simp_all split: option.splits)
  from a b c d show ?thesis by simp
qed

text \<open>
  The default case on the symbolic instance, for a string that is not a number: the
  hex conversion is that of its short-string encoding.
\<close>

lemma encodeValue_default_case_example:
  "encodeValue 1 symbolic Map.empty ''foo'' (JStr ''ab'') \<lparr>parent = None, key = None\<rparr> ACTIVE =
     Some (Inl (UnsupportedType ''foo'')) \<and>
   toHex symbolic (JStr ''ab'') = None \<and>
   encodeShortString symbolic ''ab'' = Some ''0x6162'' \<and>
   encodeValue 1 symbolic Map.empty ''foo'' (JStr ''ab'') \<lparr>parent = None, key = None\<rparr> LEGACY =
     Some (Inr (''foo'', JStr ''0x6162'')) \<and>
   encodeValue 1 symbolic Map.empty ''foo'' JNull \<lparr>parent = None, key = None\<rparr> LEGACY =
     Some (Inl ConversionError)"
proof -
  have a: "(Map.empty :: types) ''foo'' = None" by simp
  have b: "presetTypes ''foo'' = None" by code_simp
  have c: "''foo'' \<notin> set objectPrototypeNames" by code_simp
  have d: "\<not> endsWithStar ''foo''" by code_simp
  have e: "''foo'' \<notin> set knownTags" by code_simp
  have f: "toHex symbolic (JStr ''ab'') = None" by code_simp
  have g: "encodeShortString symbolic ''ab'' = Some ''0x6162''" by code_simp
  have h: "toHex symbolic (JStr ''0x6162'') = Some ''0x6162''"
    by (simp add: symbolic_def symToHex_def symParseString_def digitValue_def hexNat.simps)
  have i: "toHex symbolic JNull = None" by code_simp
  note th = encodeValue_default_case[OF a b c d e, where n = 0 and env = symbolic
      and ctx = "\<lparr>parent = None, key = None\<rparr>"]
  from th[of "JStr ''ab''"] th[of JNull] f g h i show ?thesis
    by (simp del: encodeValue.simps)
qed

text \<open>
  C8: the code does not do what the claim says for a type tag that names a member
  inherited from \<open>Object.prototype\<close>, such as \<open>toString\<close>.  The tag names no declared
  and no preset struct, yet \<open>types[type]\<close> is truthy, the struct branch is taken, and
  \<open>encodeValue\<close> fails with a \<open>TypeError\<close> for both revisions: neither the
  unsupported-type error of the active revision nor the hex conversion of the legacy
  revision.
\<close>

theorem encodeValue_inherited_tag:
  assumes "type \<in> set objectPrototypeNames" and "types type = None"
  shows "encodeValue (Suc (Suc n)) env types type v ctx revision = Some (Inl TypeError)"
proof -
  have l: "lookupType types type = Inherited"
    using assms by (simp add: lookupType_def)
  let ?universe = "if revision = ACTIVE
                   then types ++ cfg_presetTypes (revisionConfiguration env revision) else types"
  have "?universe type = None"
    using assms inherited_name_plain(2)[OF assms(1)] by (cases revision) (simp_all add: map_add_def)
  then have u: "lookupType ?universe type = Inherited"
    using assms(1) by (simp add: lookupType_def)
  have "getDependencies (Suc n) ?universe type [] [] revision = Some (Inl TypeError)"
    using u by (simp add: inherited_name_plain(1)[OF assms(1)] del: lookupType_Declared)
  then have "encodeType (Suc n) env types type revision = Some (Inl TypeError)"
    by (simp add: encodeType_def Let_def)
  then have "getTypeHash (Suc n) env types type revision = Some (Inl TypeError)"
    by (simp add: getTypeHash_def)
  then have "encodeData_body (encodeValue (Suc n) env) (Suc n) env types type v revision =
               Some (Inl TypeError)"
    using l by (simp add: encodeData_body_def)
  then have "getStructHash_body (encodeValue (Suc n) env) (Suc n) env types type v revision =
               Some (Inl TypeError)"
    by (simp add: getStructHash_body_def)
  with l show ?thesis
    by (simp add: encodeValue_body_def)
qed

theorem encodeValue_inherited_tag_witness:
  "encodeValue 2 symbolic Map.empty ''toString'' (JStr ''0x1'') \<lparr>parent = None, key = None\<rparr> ACTIVE =
     Some (Inl TypeError) \<and>
   encodeValue 2 symbolic Map.empty ''toString'' (JStr ''0x1'') \<lparr>parent = None, key = None\<rparr> LEGACY =
     Some (Inl TypeError)"
proof -
  have a: "''toString'' \<in> set objectPrototypeNames" by code_simp
  have b: "(Map.empty :: types) ''toString'' = None" by simp
  note th = encodeValue_inherited_tag[where types = Map.empty and type = "''toString''" and n = 0
      and env = symbolic and v = "JStr ''0x1''" and ctx = "\<lparr>parent = None, key = None\<rparr>",
      OF a b]
  from th[of ACTIVE] th[of LEGACY] show ?thesis
    by (simp add: eval_nat_numeral del: encodeValue.simps)
qed

text \<open>
  C9: let \<open>merkletree\<close> not be a declared type, and let the context name a declared
  parent type and a key, both non-empty, under which the parent type has a field.
  If that field is not of type \<open>merkletree\<close>, \<open>encodeValue\<close> fails; if its \<open>contains\<close>
  reference ends in the array marker, \<open>encodeValue\<close> fails; otherwise every element
  of the array is encoded against the type that \<open>contains\<close> names, and the result is
  the root of the Merkle tree over these digests, built with the pair hash of the
  revision, tagged \<open>felt\<close>.
\<close>

theorem encodeValue_merkletree:
  assumes "types ''merkletree'' = None"
    and "ctx = \<lparr>parent = Some p, key = Some k\<rparr>" and "p \<noteq> []" and "k \<noteq> []"
    and "types p = Some fs" and "find (\<lambda>t. t_name t = k) fs = Some f"
  shows "(t_type f \<noteq> ''merkletree'' \<longrightarrow>
            encodeValue (Suc n) env types ''merkletree'' v ctx revision = Some (Inl (NotMerkleTree k))) \<and>
         (t_type f = ''merkletree'' \<and> t_contains f = Some c \<and> endsWithStar c \<longrightarrow>
            encodeValue (Suc n) env types ''merkletree'' v ctx revision =
              Some (Inl (MerkleContainsArray k))) \<and>
         (t_type f = ''merkletree'' \<and> t_contains f = Some c \<and> \<not> endsWithStar c \<and>
          v = JArr xs \<and>
          mapMR (\<lambda>x. bindR (encodeValue n env types c x \<lparr>parent = None, key = None\<rparr> revision)
                       (\<lambda>r. returnR (snd r))) xs = Some (Inr leaves) \<longrightarrow>
            encodeValue (Suc n) env types ''merkletree'' v ctx revision =
              Some (bindE (ext (merkleRoot env leaves
                                 (case revision of ACTIVE \<Rightarrow> computePoseidonHash env
                                                 | LEGACY \<Rightarrow> computePedersenHash env)))
                      (\<lambda>root. Inr (''felt'', root))))"
proof -
  have pre: "lookupType (cfg_presetTypes (revisionConfiguration env revision)) ''merkletree'' =
             Undeclared"
    by (cases revision) (simp_all add: lookupType_def objectPrototypeNames_def presetTypes_def)
  have und: "lookupType types ''merkletree'' = Undeclared"
    using assms(1) by (simp add: lookupType_def objectPrototypeNames_def)
  have hm: "hashMerkleMethod (revisionConfiguration env revision) =
            (case revision of ACTIVE \<Rightarrow> computePoseidonHash env | LEGACY \<Rightarrow> computePedersenHash env)"
    by (cases revision) simp_all
  show ?thesis
    using assms pre und
    by (auto simp: encodeValue_body_def endsWithStar_def getMerkleTreeType_def
          isMerkleTreeType_def liftR_def hm)
qed

theorem encodeValue_merkletree_witness:
  "encodeValue (Suc 3) symbolic merkleTypes ''merkletree''
     (JArr [JObj [(''v'', JStr ''1'')], JObj [(''v'', JStr ''2'')]])
     \<lparr>parent = Some ''Session'', key = Some ''root''\<rparr> LEGACY =
     Some (Inr (''felt'',
        JStr ''pedersen(pedersen(sn_keccak(Leaf(v:felt)),0x1),pedersen(sn_keccak(Leaf(v:felt)),0x2))'')) \<and>
   encodeValue (Suc 3) symbolic merkleTypes ''merkletree'' (JArr [])
     \<lparr>parent = Some ''Session'', key = Some ''bad''\<rparr> LEGACY = Some (Inl (NotMerkleTree ''bad'')) \<and>
   encodeValue (Suc 3) symbolic merkleTypes ''merkletree'' (JArr [])
     \<lparr>parent = Some ''Session'', key = Some ''arr''\<rparr> LEGACY =
     Some (Inl (MerkleContainsArray ''arr''))"
proof -
  let ?root = "\<lparr>t_name = ''root'', t_type = ''merkletree'', t_contains = Some ''Leaf''\<rparr>"
  let ?bad = "\<lparr>t_name = ''bad'', t_type = ''felt'', t_contains = None\<rparr>"
  let ?arr = "\<lparr>t_name = ''arr'', t_type = ''merkletree'', t_contains = Some ''Leaf*''\<rparr>"
  let ?xs = "[JObj [(''v'', JStr ''1'')], JObj [(''v'', JStr ''2'')]]"
  let ?leaves = "[JStr ''pedersen(sn_keccak(Leaf(v:felt)),0x1)'',
                  JStr ''pedersen(sn_keccak(Leaf(v:felt)),0x2)'']"
  have a: "merkleTypes ''merkletree'' = None" by code_simp
  have p: "''Session'' \<noteq> []" "''root'' \<noteq> []" "''bad'' \<noteq> []" "''arr'' \<noteq> []" by simp_all
  have s: "merkleTypes ''Session'' = Some [?root, ?bad, ?arr]" by code_simp
  have f1: "find (\<lambda>t. t_name t = ''root'') [?root, ?bad, ?arr] = Some ?root" by simp
  have f2: "find (\<lambda>t. t_name t = ''bad'') [?root, ?bad, ?arr] = Some ?bad" by simp
  have f3: "find (\<lambda>t. t_name t = ''arr'') [?root, ?bad, ?arr] = Some ?arr" by simp
  have l: "mapMR (\<lambda>x. bindR (encodeValue 3 symbolic merkleTypes ''Leaf'' x
                               \<lparr>parent = None, key = None\<rparr> LEGACY)
                         (\<lambda>r. returnR (snd r))) ?xs = Some (Inr ?leaves)"
    by code_simp
  have m: "ext (merkleRoot symbolic ?leaves (computePedersenHash symbolic)) =
           Inr (JStr ''pedersen(pedersen(sn_keccak(Leaf(v:felt)),0x1),pedersen(sn_keccak(Leaf(v:felt)),0x2))'')"
    by code_simp
  have e: "\<not> endsWithStar ''Leaf''" "endsWithStar ''Leaf*''" by code_simp+
  note t1 = encodeValue_merkletree[OF a refl p(1) p(2) s f1,
      where n = 3 and env = symbolic and v = "JArr ?xs" and revision = LEGACY
        and c = "''Leaf''" and xs = ?xs and leaves = ?leaves]
  note t2 = encodeValue_merkletree[OF a refl p(1) p(3) s f2,
      where n = 3 and env = symbolic and v = "JArr []" and revision = LEGACY]
  note t3 = encodeValue_merkletree[OF a refl p(1) p(4) s f3,
      where n = 3 and env = symbolic and v = "JArr []" and revision = LEGACY
        and c = "''Leaf*''"]
  from t1 t2 t3 l m e show ?thesis by simp
qed

end
